theory Spec2Isabelle
  imports Complex_Main "HOL-Library.Word"
begin

section \<open>Heights and height grids\<close>

text \<open>
  A C++ \<open>float\<close> as far as \<open>ElevationLayer.cpp\<close> looks at it: it is a NaN, an infinity or
  a number. Only comparisons, equality and one addition are applied to heights, so a finite
  value is a real number (rounding of the addition is idealised) and the comparisons are
  the IEEE ones: every ordered comparison with a NaN is false.
\<close>

datatype cfloat = NaN | NegInf | Fin real | PosInf

fun isNaN :: "cfloat \<Rightarrow> bool" where
  "isNaN NaN = True"
| "isNaN _ = False"

text \<open>The operator \<open><\<close> of C++ on floats.\<close>

fun fl_less :: "cfloat \<Rightarrow> cfloat \<Rightarrow> bool" where
  "fl_less NaN _ = False"
| "fl_less _ NaN = False"
| "fl_less PosInf _ = False"
| "fl_less _ NegInf = False"
| "fl_less NegInf _ = True"
| "fl_less _ PosInf = True"
| "fl_less (Fin x) (Fin y) = (x < y)"

text \<open>The operators \<open>==\<close>, \<open>!=\<close> and \<open><=\<close> of C++ on floats.\<close>

definition fl_eq :: "cfloat \<Rightarrow> cfloat \<Rightarrow> bool" where
  "fl_eq a b = (\<not> isNaN a \<and> \<not> isNaN b \<and> a = b)"

definition fl_neq :: "cfloat \<Rightarrow> cfloat \<Rightarrow> bool" where
  "fl_neq a b = (\<not> fl_eq a b)"

definition fl_le :: "cfloat \<Rightarrow> cfloat \<Rightarrow> bool" where
  "fl_le a b = (fl_less a b \<or> fl_eq a b)"

text \<open>The operator \<open>+\<close> on floats, rounding idealised.\<close>

fun fl_add :: "cfloat \<Rightarrow> cfloat \<Rightarrow> cfloat" where
  "fl_add NaN _ = NaN"
| "fl_add _ NaN = NaN"
| "fl_add PosInf NegInf = NaN"
| "fl_add NegInf PosInf = NaN"
| "fl_add PosInf _ = PosInf"
| "fl_add _ PosInf = PosInf"
| "fl_add NegInf _ = NegInf"
| "fl_add _ NegInf = NegInf"
| "fl_add (Fin x) (Fin y) = Fin (x + y)"

text \<open>
  \<open>osg::HeightField\<close>: the column and row counts are \<open>unsigned int\<close>, the heights a
  \<open>FloatArray\<close> in row-major order, the origin and the intervals are set by
  \<open>createHeightField\<close> (doubles, idealised as reals). A null pointer to a grid is \<open>None\<close>.
\<close>

record HeightField =
  getNumColumns :: "32 word"
  getNumRows :: "32 word"
  getHeightList :: "cfloat list"
  getOrigin :: "real \<times> real \<times> real"
  getXInterval :: real
  getYInterval :: real
  getBorderWidth :: "32 word"

subsection \<open>NormalizeNoDataValues\<close>

text \<open>
  The operation that replaces invalid heights with the \<open>NO_DATA_VALUE\<close> marker. The
  marker is a macro of a header that is not part of the file; it is the parameter \<open>nd\<close>.
  \<open>osg::equivalent\<close> belongs to OpenSceneGraph; it is the parameter \<open>equivalent\<close>.
\<close>

record NormalizeNoDataValues =
  noDataValue :: cfloat
  minValidValue :: cfloat
  maxValidValue :: cfloat

definition normalizeValue ::
  "cfloat \<Rightarrow> (cfloat \<Rightarrow> cfloat \<Rightarrow> bool) \<Rightarrow> NormalizeNoDataValues \<Rightarrow> cfloat \<Rightarrow> cfloat" where
  "normalizeValue nd equivalent op v =
     (if isNaN v \<or> equivalent v (noDataValue op) \<or> fl_less v (minValidValue op)
         \<or> fl_less (maxValidValue op) v
      then nd else v)"

text \<open>\<open>operator()\<close>: nothing happens to a null grid; each value of a grid is rewritten in place.\<close>

definition normalizeNoData ::
  "cfloat \<Rightarrow> (cfloat \<Rightarrow> cfloat \<Rightarrow> bool) \<Rightarrow> NormalizeNoDataValues
     \<Rightarrow> HeightField option \<Rightarrow> HeightField option" where
  "normalizeNoData nd equivalent op hf =
     (case hf of
        None \<Rightarrow> None
      | Some h \<Rightarrow> Some (h\<lparr>getHeightList := map (normalizeValue nd equivalent op) (getHeightList h)\<rparr>))"

subsection \<open>validateHeightField\<close>

text \<open>
  The sanity check of a grid. The three tests run in the order of the source, so the
  product of the counts is taken only when both are at most 1024; it is an
  \<open>unsigned int\<close> product, compared with the \<open>size_t\<close> length of the storage.
\<close>

definition validateHeightField :: "HeightField option \<Rightarrow> bool" where
  "validateHeightField hf =
     (case hf of
        None \<Rightarrow> False
      | Some h \<Rightarrow>
          if getNumRows h < 2 \<or> getNumRows h > 1024 then False
          else if getNumColumns h < 2 \<or> getNumColumns h > 1024 then False
          else if length (getHeightList h) \<noteq> unat (getNumColumns h * getNumRows h) then False
          else True)"

text \<open>A grid of the given counts whose storage is the given list.\<close>

definition mkHeightField :: "32 word \<Rightarrow> 32 word \<Rightarrow> cfloat list \<Rightarrow> HeightField" where
  "mkHeightField c r hs =
     \<lparr>getNumColumns = c, getNumRows = r, getHeightList = hs, getOrigin = (0, 0, 0),
      getXInterval = 1, getYInterval = 1, getBorderWidth = 0\<rparr>"

section \<open>Tile keys, extents and the collaborators of a layer\<close>

text \<open>
  Modelled from the spec: \<open>TileKey\<close> is (level, x, y, profile), with \<open>parent()\<close> and
  \<open>isValid()\<close>; its class is not part of the file. The level and the tile coordinates are
  \<open>unsigned int\<close>; the profile is a pointer, null in an invalid key. The parent of a key of
  level 0 is the invalid key, any other parent is one level up with halved coordinates (the
  quadtree rule; the properties below use only that the level decreases). \<open>==\<close> on keys is
  equality of the four components.
\<close>

datatype 'p TileKey =
  TileKey (getLOD: "32 word") (getTileX: "32 word") (getTileY: "32 word") (getProfile: "'p option")

definition keyValid :: "'p TileKey \<Rightarrow> bool" where
  "keyValid k = (getProfile k \<noteq> None)"

definition TileKey_INVALID :: "'p TileKey" where
  "TileKey_INVALID = TileKey 0 0 0 None"

definition createParentKey :: "'p TileKey \<Rightarrow> 'p TileKey" where
  "createParentKey k =
     (if getLOD k = 0 then TileKey_INVALID
      else TileKey (getLOD k - 1) (getTileX k div 2) (getTileY k div 2) (getProfile k))"

text \<open>
  \<open>GeoExtent\<close>, as the record of what the file asks of it: validity, the bounds, the width
  and the height (doubles, idealised as reals), and whether its SRS is geographic.
\<close>

record GeoExtent =
  extIsValid :: bool
  xMin :: real
  yMin :: real
  xMax :: real
  yMax :: real
  extWidth :: real
  extHeight :: real
  extIsGeographic :: bool

definition GeoExtent_INVALID :: GeoExtent where
  "GeoExtent_INVALID =
     \<lparr>extIsValid = False, xMin = 0, yMin = 0, xMax = 0, yMax = 0, extWidth = 0, extHeight = 0,
      extIsGeographic = False\<rparr>"

text \<open>
  \<open>GeoHeightField\<close>: a grid with the extent it covers. Its optional normal map is always
  null in this file (\<open>createImplementation\<close> never makes one), so it has no field here.
  It is valid when the grid is not null and the extent is valid.
\<close>

record GeoHeightField =
  ghfHeightField :: "HeightField option"
  ghfExtent :: GeoExtent

definition GeoHeightField_INVALID :: GeoHeightField where
  "GeoHeightField_INVALID = \<lparr>ghfHeightField = None, ghfExtent = GeoExtent_INVALID\<rparr>"

definition ghfValid :: "GeoHeightField \<Rightarrow> bool" where
  "ghfValid g = (ghfHeightField g \<noteq> None \<and> extIsValid (ghfExtent g))"

text \<open>The progress callback, as the two answers the file asks of it; a null callback is \<open>None\<close>.\<close>

record Progress =
  isCanceled :: bool
  needsRetry :: bool

text \<open>
  An elevation layer: its options, its cache policy, and its tile source driver. The driver
  and the level range tests are functions of the key. \<open>hasCacheBin\<close> tells whether
  \<open>getCacheBin\<close> yields a bin for the profile of a key.
\<close>

record 'p Layer =
  getEnabled :: bool
  getVisible :: bool
  getTileSize :: "32 word"
  isOffset :: bool
  getNoDataValue :: cfloat
  getMinValidValue :: cfloat
  getMaxValidValue :: cfloat
  hasTileSource :: bool
  tileSourceIsOK :: bool
  isTileSourceExpected :: bool
  layerProfile :: "'p option"
  hasMemCache :: bool
  hasCacheBin :: "'p option \<Rightarrow> bool"
  isCacheOnly :: bool
  isCacheReadable :: bool
  isCacheWriteable :: bool
  isExpired :: "nat \<Rightarrow> bool"
  isKeyInLegalRange :: "'p TileKey \<Rightarrow> bool"
  mayHaveData :: "'p TileKey \<Rightarrow> bool"
  getBestAvailableTileKey :: "'p TileKey \<Rightarrow> 'p TileKey"
  driver :: "'p TileKey \<Rightarrow> Progress option \<Rightarrow> HeightField option"
  noDataPolicyMSL :: bool

text \<open>
  What a call can change in a layer: its status, the blacklist of its tile source, the
  memory cache, the persistent cache bin (each entry with its time of modification; the
  object of an entry that is not a height field reads as null), and the keys the driver was
  asked for, in order. The caches hold grids by value.
\<close>

record 'p LayerState =
  statusIsError :: bool
  blacklist :: "'p TileKey set"
  memCache :: "string \<rightharpoonup> HeightField"
  cacheBin :: "string \<rightharpoonup> (HeightField option \<times> nat)"
  driverCalls :: "'p TileKey list"

text \<open>
  The services of other files: the \<open>NO_DATA_VALUE\<close> macro, \<open>osg::equivalent\<close>, the
  string of a key and the signature of a profile, the equivalence tests of profiles, the
  vertical datum transform, the extent of a key, the geoid of a profile's vertical datum
  (a height per coordinate pair) and whether a profile has a vertical datum at all,
  \<open>HeightFieldUtils::resolveInvalidHeights\<close>, the clock of the cache bin, and the composite
  route \<open>assembleHeightField\<close>, which resamples the tiles of the layer's own profile through
  \<open>GeoHeightField::getElevationAndNormal\<close>.
\<close>

record 'p Env =
  NO_DATA_VALUE :: cfloat
  equivalent :: "cfloat \<Rightarrow> cfloat \<Rightarrow> bool"
  keyStr :: "'p TileKey \<Rightarrow> string"
  getFullSignature :: "'p option \<Rightarrow> string"
  isHorizEquivalentTo :: "'p option \<Rightarrow> 'p option \<Rightarrow> bool"
  isVertEquivalentTo :: "'p option \<Rightarrow> 'p option \<Rightarrow> bool"
  VerticalDatum_transform :: "'p option \<Rightarrow> 'p option \<Rightarrow> GeoExtent \<Rightarrow> HeightField \<Rightarrow> HeightField"
  getExtent :: "'p TileKey \<Rightarrow> GeoExtent"
  hasVerticalDatum :: "'p option \<Rightarrow> bool"
  getGeoid :: "'p option \<Rightarrow> (real \<Rightarrow> real \<Rightarrow> real) option"
  resolveInvalidHeights ::
    "HeightField \<Rightarrow> GeoExtent \<Rightarrow> cfloat \<Rightarrow> (real \<Rightarrow> real \<Rightarrow> real) option \<Rightarrow> HeightField"
  cacheClock :: nat
  assembleHeightField ::
    "'p Layer \<Rightarrow> 'p TileKey \<Rightarrow> Progress option \<Rightarrow> 'p LayerState
       \<Rightarrow> HeightField option \<times> 'p LayerState"

section \<open>Single-layer tile synthesis\<close>

text \<open>\<open>getOrCreatePreCacheOp\<close>: the normalizer of a layer, made of its three values.\<close>

definition getOrCreatePreCacheOp :: "'p Layer \<Rightarrow> NormalizeNoDataValues" where
  "getOrCreatePreCacheOp ly =
     \<lparr>noDataValue = getNoDataValue ly, minValidValue = getMinValidValue ly,
      maxValidValue = getMaxValidValue ly\<rparr>"

text \<open>
  Modelled from the spec: \<open>TileSource::createHeightField(key, op, progress)\<close> pipes the grid
  of the driver through the normalizer (4.A). The call is recorded in \<open>driverCalls\<close>.
\<close>

definition sourceCreateHeightField ::
  "'p Env \<Rightarrow> 'p Layer \<Rightarrow> 'p TileKey \<Rightarrow> Progress option \<Rightarrow> 'p LayerState
     \<Rightarrow> HeightField option \<times> 'p LayerState" where
  "sourceCreateHeightField env ly key progress st =
     (normalizeNoData (NO_DATA_VALUE env) (equivalent env) (getOrCreatePreCacheOp ly)
        (driver ly key progress),
      st\<lparr>driverCalls := driverCalls st @ [key]\<rparr>)"

text \<open>The test that guards the blacklisting of a key after a failed fetch.\<close>

definition notCanceled :: "Progress option \<Rightarrow> bool" where
  "notCanceled progress =
     (case progress of None \<Rightarrow> True | Some p \<Rightarrow> \<not> isCanceled p \<and> \<not> needsRetry p)"

definition createHeightFieldFromTileSource ::
  "'p Env \<Rightarrow> 'p Layer \<Rightarrow> 'p TileKey \<Rightarrow> Progress option \<Rightarrow> 'p LayerState
     \<Rightarrow> HeightField option \<times> 'p LayerState" where
  "createHeightFieldFromTileSource env ly key progress st =
     (if \<not> hasTileSource ly then (None, st)
      else if key \<in> blacklist st then (None, st)
      else if isHorizEquivalentTo env (getProfile key) (layerProfile ly) then
        (if \<not> mayHaveData ly key then (None, st)
         else
           (case sourceCreateHeightField env ly key progress st of
              (Some h, st1) \<Rightarrow>
                (if \<not> isVertEquivalentTo env (getProfile key) (layerProfile ly)
                 then (Some (VerticalDatum_transform env (layerProfile ly) (getProfile key)
                               (getExtent env key) h), st1)
                 else (Some h, st1))
            | (None, st1) \<Rightarrow>
                (if notCanceled progress
                 then (None, st1\<lparr>blacklist := insert key (blacklist st1)\<rparr>)
                 else (None, st1))))
      else assembleHeightField env ly key progress st)"

text \<open>\<open>createImplementation\<close> of the base class.\<close>

definition createImplementation ::
  "'p Env \<Rightarrow> 'p Layer \<Rightarrow> 'p TileKey \<Rightarrow> Progress option \<Rightarrow> 'p LayerState
     \<Rightarrow> HeightField option \<times> 'p LayerState" where
  "createImplementation env ly key progress st =
     createHeightFieldFromTileSource env ly key progress st"

text \<open>Modelled from the spec: \<open>disable\<close> makes the layer transition to Error.\<close>

definition disable :: "'p LayerState \<Rightarrow> 'p LayerState" where
  "disable st = st\<lparr>statusIsError := True\<rparr>"

definition cacheKeyOf :: "'p Env \<Rightarrow> 'p TileKey \<Rightarrow> string" where
  "cacheKeyOf env key = keyStr env key @ ''_'' @ getFullSignature env (getProfile key)"

text \<open>
  The read of the persistent cache in \<open>createHeightField\<close>: the pair of \<open>hf\<close> (the grid
  accepted from the cache, when it validates and has not expired) and \<open>cachedHF\<close> (whatever
  object the entry held).
\<close>

definition readCacheBin ::
  "'p Env \<Rightarrow> 'p Layer \<Rightarrow> 'p TileKey \<Rightarrow> 'p LayerState \<Rightarrow> HeightField option \<times> HeightField option" where
  "readCacheBin env ly key st =
     (if hasCacheBin ly (getProfile key) \<and> isCacheReadable ly then
        (case cacheBin st (cacheKeyOf env key) of
           None \<Rightarrow> (None, None)
         | Some (cachedHF, t) \<Rightarrow>
             (if cachedHF \<noteq> None \<and> validateHeightField cachedHF
              then (if \<not> isExpired ly t then (cachedHF, cachedHF) else (None, cachedHF))
              else (None, cachedHF)))
      else (None, None))"

text \<open>Origin, intervals and border of a grid made for a key; the counts are \<open>unsigned\<close>.\<close>

definition setUpParams :: "GeoExtent \<Rightarrow> HeightField \<Rightarrow> HeightField" where
  "setUpParams ex h =
     h\<lparr>getOrigin := (xMin ex, yMin ex, 0),
       getXInterval := (xMax ex - xMin ex) / real (unat (getNumColumns h - 1)),
       getYInterval := (yMax ex - yMin ex) / real (unat (getNumRows h - 1)),
       getBorderWidth := 0\<rparr>"

text \<open>
  The part of \<open>createHeightField\<close> that runs when the memory cache gave nothing: the
  persistent cache, then the source. The result is the grid (null for
  \<open>GeoHeightField::INVALID\<close>) and the state. Where the source is asked, nothing came
  from the cache, so \<open>fromCache\<close> is false in the test that guards the write; the origin
  and the intervals are set only on that route.
\<close>

definition createHeightFieldUncached ::
  "'p Env \<Rightarrow> 'p Layer \<Rightarrow> 'p TileKey \<Rightarrow> Progress option \<Rightarrow> 'p LayerState
     \<Rightarrow> HeightField option \<times> 'p LayerState" where
  "createHeightFieldUncached env ly key progress st =
     (let hasBin = hasCacheBin ly (getProfile key);
          canContinue = (hasTileSource ly \<or> \<not> isTileSourceExpected ly \<or> (isCacheOnly ly \<and> hasBin))
      in
      if \<not> canContinue then (None, disable st)
      else if \<not> isCacheOnly ly \<and> layerProfile ly = None then (None, disable st)
      else
        (case readCacheBin env ly key st of (hf, cachedHF) \<Rightarrow>
           if hf = None \<and> isCacheOnly ly then (None, st)
           else if hf = None then
             (if \<not> isKeyInLegalRange ly key then (None, st)
              else if isTileSourceExpected ly \<and> (\<not> hasTileSource ly \<or> \<not> tileSourceIsOK ly)
              then (None, st)
              else
                (case createImplementation env ly key progress st of (fresh, st1) \<Rightarrow>
                   let hf1 = (if fresh \<noteq> None \<and> \<not> validateHeightField fresh then None else fresh);
                       st2 = (if hf1 \<noteq> None \<and> hasBin \<and> isCacheWriteable ly
                              then st1\<lparr>cacheBin := (cacheBin st1)(cacheKeyOf env key \<mapsto> (hf1, cacheClock env))\<rparr>
                              else st1);
                       hf2 = (if hf1 = None \<and> cachedHF \<noteq> None then cachedHF else hf1)
                   in (case hf2 of
                         None \<Rightarrow> (None, st2)
                       | Some h \<Rightarrow> (Some (setUpParams (getExtent env key) h), st2))))
           else (hf, st)))"

text \<open>The post-processing of a valid result under the MSL no-data policy.\<close>

definition postProcess :: "'p Env \<Rightarrow> 'p Layer \<Rightarrow> 'p TileKey \<Rightarrow> GeoHeightField \<Rightarrow> GeoHeightField" where
  "postProcess env ly key result =
     (if ghfValid result \<and> noDataPolicyMSL ly then
        (let geoid = (if \<not> hasVerticalDatum env (getProfile key)
                      then (if hasVerticalDatum env (layerProfile ly)
                            then getGeoid env (layerProfile ly) else None)
                      else None)
         in result\<lparr>ghfHeightField :=
              map_option (\<lambda>h. resolveInvalidHeights env h (ghfExtent result) (NO_DATA_VALUE env) geoid)
                (ghfHeightField result)\<rparr>)
      else result)"

definition createHeightField ::
  "'p Env \<Rightarrow> 'p Layer \<Rightarrow> 'p TileKey \<Rightarrow> Progress option \<Rightarrow> 'p LayerState
     \<Rightarrow> GeoHeightField \<times> 'p LayerState" where
  "createHeightField env ly key progress st =
     (if statusIsError st then (GeoHeightField_INVALID, st)
      else if \<not> getEnabled ly then (GeoHeightField_INVALID, st)
      else
        (let fromMem = (if hasMemCache ly then memCache st (cacheKeyOf env key) else None);
             memResult = (case fromMem of
                            None \<Rightarrow> GeoHeightField_INVALID
                          | Some h \<Rightarrow> \<lparr>ghfHeightField = Some h, ghfExtent = getExtent env key\<rparr>);
             fromMemCache = (fromMem \<noteq> None)
         in
         if ghfValid memResult then (postProcess env ly key memResult, st)
         else
           (case createHeightFieldUncached env ly key progress st of
              (None, st1) \<Rightarrow> (GeoHeightField_INVALID, st1)
            | (Some h, st1) \<Rightarrow>
                (let result = \<lparr>ghfHeightField = Some h, ghfExtent = getExtent env key\<rparr>;
                     st2 = (if ghfValid result \<and> \<not> fromMemCache \<and> hasMemCache ly
                            then st1\<lparr>memCache := (memCache st1)(cacheKeyOf env key \<mapsto> h)\<rparr>
                            else st1)
                 in (postProcess env ly key result, st2)))))"

section \<open>The layer stack compositor\<close>

text \<open>
  Modelled from the spec: the interpolation of \<open>getElevation\<close> is bilinear or nearest
  sample; the enumeration is declared in another file.
\<close>

datatype ElevationInterpolation = INTERP_NEAREST | INTERP_BILINEAR

text \<open>
  Two more services of other files: \<open>TileKey::mapResolution\<close> (the key whose tile
  resolution matches the target size) and \<open>GeoHeightField::getElevation\<close>, which yields
  no elevation when it returns false. Query and output SRS are the same, \<open>keySRS\<close>.
\<close>

record 'p Sampling =
  mapResolution :: "'p TileKey \<Rightarrow> 32 word \<Rightarrow> 32 word \<Rightarrow> 'p TileKey"
  getElevation ::
    "GeoHeightField \<Rightarrow> 'p option \<Rightarrow> real \<Rightarrow> real \<Rightarrow> ElevationInterpolation \<Rightarrow> cfloat option"

text \<open>
  Indexing a \<open>std::vector\<close> or an osg array beyond its size, and shifting by a negative
  or too large count, are undefined in C++. They are results of the model, so that a run in
  which they happen is told from a run that returns.
\<close>

datatype error = OutOfBounds | UndefinedShift

definition bindE :: "error + 'a \<Rightarrow> ('a \<Rightarrow> error + 'b) \<Rightarrow> error + 'b" where
  "bindE m f = (case m of Inl e \<Rightarrow> Inl e | Inr x \<Rightarrow> f x)"

text \<open>\<open>operator[]\<close>, read and assigned, on a vector and on an array of vectors.\<close>

definition vecGet :: "'a list \<Rightarrow> nat \<Rightarrow> error + 'a" where
  "vecGet xs i = (if i < length xs then Inr (xs ! i) else Inl OutOfBounds)"

definition vecSet :: "'a list \<Rightarrow> nat \<Rightarrow> 'a \<Rightarrow> error + 'a list" where
  "vecSet xs i v = (if i < length xs then Inr (xs[i := v]) else Inl OutOfBounds)"

definition vecGet2 :: "'a list list \<Rightarrow> nat \<Rightarrow> nat \<Rightarrow> error + 'a" where
  "vecGet2 xss n i = bindE (vecGet xss n) (\<lambda>xs. vecGet xs i)"

definition vecSet2 :: "'a list list \<Rightarrow> nat \<Rightarrow> nat \<Rightarrow> 'a \<Rightarrow> error + 'a list list" where
  "vecSet2 xss n i v =
     bindE (vecGet xss n) (\<lambda>xs. bindE (vecSet xs i v) (\<lambda>xs'. Inr (xss[n := xs'])))"

text \<open>A counting \<open>for\<close> loop over the given indices, stopping at the first failure.\<close>

fun forEachM :: "'a list \<Rightarrow> ('a \<Rightarrow> 's \<Rightarrow> error + 's) \<Rightarrow> 's \<Rightarrow> error + 's" where
  "forEachM [] body s = Inr s"
| "forEachM (x # xs) body s = bindE (body x s) (forEachM xs body)"

subsection \<open>Collecting the layers of a tile\<close>

text \<open>
  \<open>LayerData\<close>. The layer is held by reference; its options are \<open>ldLayer\<close>, and its
  mutable state is the entry of the world at \<open>ldIndex\<close>, the position of the layer in the
  vector.
\<close>

record 'p LayerData =
  ldLayer :: "'p Layer"
  ldKey :: "'p TileKey"
  ldIndex :: int

text \<open>
  The body of the loop that collects the valid layers, for the layer at index \<open>i\<close>;
  \<open>push_back\<close> appends. \<open>numFallbackLayers\<close> is \<open>unsigned\<close>.
\<close>

definition collectLayer ::
  "'p Sampling \<Rightarrow> 'p Layer list \<Rightarrow> HeightField \<Rightarrow> 'p TileKey \<Rightarrow> 'p TileKey \<Rightarrow> nat
     \<Rightarrow> 'p LayerData list \<times> 'p LayerData list \<times> 32 word
     \<Rightarrow> 'p LayerData list \<times> 'p LayerData list \<times> 32 word" where
  "collectLayer smp layers hf key keyToUse i acc =
     (case acc of (contenders, offsets, numFallbackLayers) \<Rightarrow>
        let layer = layers ! i in
        if getEnabled layer \<and> getVisible layer then
          (let mappedKey = mapResolution smp keyToUse (getNumColumns hf) (getTileSize layer) in
           if \<not> isKeyInLegalRange layer key then acc
           else
             (let bestKey = getBestAvailableTileKey layer mappedKey in
              if keyValid bestKey then
                (let nf = (if mappedKey \<noteq> bestKey then numFallbackLayers + 1
                           else numFallbackLayers);
                     ld = \<lparr>ldLayer = layer, ldKey = bestKey, ldIndex = int i\<rparr>
                 in if isOffset layer then (contenders, offsets @ [ld], nf)
                    else (contenders @ [ld], offsets, nf))
              else acc))
        else acc)"

text \<open>The loop runs \<open>i\<close> from \<open>size()-1\<close> down to 0: the highest priority is last.\<close>

fun collectLayers ::
  "'p Sampling \<Rightarrow> 'p Layer list \<Rightarrow> HeightField \<Rightarrow> 'p TileKey \<Rightarrow> 'p TileKey \<Rightarrow> nat
     \<Rightarrow> 'p LayerData list \<times> 'p LayerData list \<times> 32 word
     \<Rightarrow> 'p LayerData list \<times> 'p LayerData list \<times> 32 word" where
  "collectLayers smp layers hf key keyToUse 0 acc = acc"
| "collectLayers smp layers hf key keyToUse (Suc i) acc =
     collectLayers smp layers hf key keyToUse i (collectLayer smp layers hf key keyToUse i acc)"

subsection \<open>The state of the pixel sweep\<close>

text \<open>
  The locals of \<open>populateHeightFieldAndNormalMap\<close> that the sweep reads and writes. The
  five arrays have nine slots each (one per neighbour tile); \<open>deltaLOD\<close> is an array of
  \<open>short\<close>. \<open>world\<close> maps the index of a layer to its state.
\<close>

record 'p Sweep =
  swHF :: HeightField
  deltaLOD :: "16 word list"
  contenders :: "'p LayerData list"
  offsets :: "'p LayerData list"
  heightFields :: "GeoHeightField list list"
  offsetFields :: "GeoHeightField list list"
  heightFallback :: "bool list list"
  heightFailed :: "bool list list"
  offsetFailed :: "bool list list"
  numHeightFieldsInCache :: "32 word"
  realData :: bool
  nodataCount :: int
  resolvedIndex :: int
  world :: "nat \<Rightarrow> 'p LayerState"

text \<open>
  The set-up before the sweep: in each of the nine slots the grid vectors are resized to
  the number of contenders and of offsets, and the three flag vectors are assigned nine
  times \<open>false\<close>. \<open>deltaLOD\<close> has \<open>numColumns * numRows\<close> zeros.
\<close>

definition initSweep ::
  "HeightField \<Rightarrow> 'p LayerData list \<Rightarrow> 'p LayerData list \<Rightarrow> (nat \<Rightarrow> 'p LayerState) \<Rightarrow> 'p Sweep" where
  "initSweep hf cs os w =
     \<lparr>swHF = hf,
      deltaLOD = replicate (unat (getNumColumns hf * getNumRows hf)) 0,
      contenders = cs, offsets = os,
      heightFields = replicate 9 (replicate (length cs) GeoHeightField_INVALID),
      offsetFields = replicate 9 (replicate (length os) GeoHeightField_INVALID),
      heightFallback = replicate 9 (replicate 9 False),
      heightFailed = replicate 9 (replicate 9 False),
      offsetFailed = replicate 9 (replicate 9 False),
      numHeightFieldsInCache = 0, realData = False, nodataCount = 0, resolvedIndex = - 1,
      world = w\<rparr>"

text \<open>What stays fixed during a call: the key, \<open>keySRS\<close>, the interpolation, the callback.\<close>

record 'p Request =
  rqKey :: "'p TileKey"
  rqKeySRS :: "'p option"
  rqInterpolation :: ElevationInterpolation
  rqProgress :: "Progress option"

subsection \<open>The contender loop\<close>

text \<open>
  The \<open>while\<close> loop that falls back on parent keys: it calls \<open>createHeightField\<close> of the
  layer until a grid is valid, the key is invalid or the key leaves the legal range. It
  yields the last grid, the last key and the state of the layer. It terminates because the
  level of a valid key decreases.
\<close>

function walkUp ::
  "'p Env \<Rightarrow> 'p Layer \<Rightarrow> Progress option \<Rightarrow> GeoHeightField \<Rightarrow> 'p TileKey \<Rightarrow> 'p LayerState
     \<Rightarrow> GeoHeightField \<times> 'p TileKey \<times> 'p LayerState" where
  "walkUp env layer progress layerHF actualKey lst =
     (if \<not> ghfValid layerHF \<and> keyValid actualKey \<and> isKeyInLegalRange layer actualKey then
        (case createHeightField env layer actualKey progress lst of (g, lst') \<Rightarrow>
           if \<not> ghfValid g then walkUp env layer progress g (createParentKey actualKey) lst'
           else (g, actualKey, lst'))
      else (layerHF, actualKey, lst))"
  by pat_completeness auto
termination
proof (relation "measure (\<lambda>(env, layer, progress, layerHF, k, lst).
                    if keyValid k then Suc (unat (getLOD k)) else 0)")
  show "wf (measure (\<lambda>(env :: 'p Env, layer :: 'p Layer, progress :: Progress option,
                        layerHF :: GeoHeightField, k :: 'p TileKey, lst :: 'p LayerState).
                    if keyValid k then Suc (unat (getLOD k)) else 0))"
    by simp
next
  fix env :: "'p Env" and layer :: "'p Layer" and progress layerHF and actualKey :: "'p TileKey"
    and lst :: "'p LayerState" and x g lst'
  assume a: "\<not> ghfValid layerHF \<and> keyValid actualKey \<and> isKeyInLegalRange layer actualKey"
  have "(if keyValid (createParentKey actualKey) then Suc (unat (getLOD (createParentKey actualKey))) else 0)
        < Suc (unat (getLOD actualKey))"
    by (auto simp: createParentKey_def keyValid_def TileKey_INVALID_def unat_minus_one
        unat_gt_0 less_Suc_eq_le)
  with a show "((env, layer, progress, g, createParentKey actualKey, lst'),
          (env, layer, progress, layerHF, actualKey, lst))
       \<in> measure (\<lambda>(env, layer, progress, layerHF, k, lst).
                    if keyValid k then Suc (unat (getLOD k)) else 0)"
    by simp
qed

declare walkUp.simps [simp del]

text \<open>A pixel of the sweep: its world coordinates and its column and row.\<close>

record Pixel =
  pxX :: real
  pxY :: real
  pxC :: "32 word"
  pxR :: "32 word"

text \<open>\<open>osg::HeightField::getHeight\<close> and \<open>setHeight\<close>: the sample at \<open>c + r * columns\<close>.\<close>

definition hfIndex :: "HeightField \<Rightarrow> 32 word \<Rightarrow> 32 word \<Rightarrow> nat" where
  "hfIndex hf c r = unat (c + r * getNumColumns hf)"

definition getHeight :: "HeightField \<Rightarrow> 32 word \<Rightarrow> 32 word \<Rightarrow> error + cfloat" where
  "getHeight hf c r = vecGet (getHeightList hf) (hfIndex hf c r)"

definition setHeight :: "HeightField \<Rightarrow> 32 word \<Rightarrow> 32 word \<Rightarrow> cfloat \<Rightarrow> error + HeightField" where
  "setHeight hf c r v =
     bindE (vecSet (getHeightList hf) (hfIndex hf c r) v) (\<lambda>hs. Inr (hf\<lparr>getHeightList := hs\<rparr>))"

text \<open>
  The first part of the body of the contender loop, for the entry \<open>i\<close> and the slot
  \<open>n = 4\<close>: skip a failed entry, otherwise load the grid on demand. The boolean tells
  whether the body goes on (\<open>False\<close> is a \<open>continue\<close>).

  In the source \<open>contenderKey\<close> is a reference to \<open>contenders[i].key\<close> and \<open>actualKey\<close> is
  a reference to \<open>contenderKey\<close>: the walk to the parents assigns to the key of the entry
  itself, and \<open>actualKey != contenderKey\<close> compares that key with itself.
\<close>

definition contenderFetch ::
  "'p Env \<Rightarrow> 'p Request \<Rightarrow> nat \<Rightarrow> 'p Sweep \<Rightarrow> error + (bool \<times> 'p Sweep)" where
  "contenderFetch env rq i st =
     bindE (vecGet (contenders st) i) (\<lambda>ld.
     bindE (vecGet2 (heightFailed st) 4 i) (\<lambda>failed.
       if failed then Inr (False, st)
       else
         bindE (vecGet2 (heightFields st) 4 i) (\<lambda>layerHF.
           if \<not> ghfValid layerHF then
             (case walkUp env (ldLayer ld) (rqProgress rq) layerHF (ldKey ld)
                     (world st (nat (ldIndex ld))) of
                (g, actualKey, lst') \<Rightarrow>
                  bindE (vecSet2 (heightFields st) 4 i g) (\<lambda>hfs.
                    let st1 = st\<lparr>heightFields := hfs,
                                 contenders := (contenders st)[i := ld\<lparr>ldKey := actualKey\<rparr>],
                                 world := (world st)(nat (ldIndex ld) := lst')\<rparr>
                    in
                    if ghfValid g then
                      bindE (vecSet2 (heightFallback st1) 4 i
                               (ldKey (contenders st1 ! i) \<noteq> ldKey (contenders st1 ! i))) (\<lambda>fb.
                        Inr (True, st1\<lparr>heightFallback := fb,
                                       numHeightFieldsInCache := numHeightFieldsInCache st1 + 1\<rparr>))
                    else
                      bindE (vecSet2 (heightFailed st1) 4 i True) (\<lambda>fl.
                        Inr (False, st1\<lparr>heightFailed := fl\<rparr>))))
           else Inr (True, st))))"

text \<open>
  The second part: the grid of the slot is valid. \<open>realData\<close> is set when the fallback
  flag of the slot is not, then the grid is sampled; a sample other than \<open>NO_DATA_VALUE\<close>
  resolves the pixel.
\<close>

definition contenderSample ::
  "'p Env \<Rightarrow> 'p Sampling \<Rightarrow> 'p Request \<Rightarrow> Pixel \<Rightarrow> nat \<Rightarrow> 'p Sweep \<Rightarrow> error + 'p Sweep" where
  "contenderSample env smp rq px i st =
     bindE (vecGet (contenders st) i) (\<lambda>ld.
     bindE (vecGet2 (heightFields st) 4 i) (\<lambda>layerHF.
       if ghfValid layerHF then
         bindE (vecGet2 (heightFallback st) 4 i) (\<lambda>isFallback.
           let st1 = (if \<not> isFallback then st\<lparr>realData := True\<rparr> else st) in
           (case getElevation smp layerHF (rqKeySRS rq) (pxX px) (pxY px) (rqInterpolation rq) of
              Some elevation \<Rightarrow>
                if fl_neq elevation (NO_DATA_VALUE env) then
                  bindE (setHeight (swHF st1) (pxC px) (pxR px) elevation) (\<lambda>hf'.
                  bindE (vecSet (deltaLOD st1)
                           (unat (pxR px * getNumColumns (swHF st1) + pxC px))
                           (ucast (getLOD (rqKey rq) - getLOD (ldKey ld)))) (\<lambda>dl.
                    Inr (st1\<lparr>resolvedIndex := ldIndex ld, swHF := hf', deltaLOD := dl\<rparr>)))
                else Inr (st1\<lparr>nodataCount := nodataCount st1 + 1\<rparr>)
            | None \<Rightarrow> Inr st1))
       else Inr st))"

text \<open>The third part: when 50 grids have been loaded, every slot and fallback flag is cleared.\<close>

definition contenderEvict :: "'p Sweep \<Rightarrow> error + 'p Sweep" where
  "contenderEvict st =
     (if numHeightFieldsInCache st \<ge> 50 then
        bindE
          (forEachM [0..<9] (\<lambda>j s.
             bindE (vecGet (heightFields s) j) (\<lambda>row.
               forEachM [0..<length row] (\<lambda>k s'.
                 bindE (vecSet2 (heightFields s') j k GeoHeightField_INVALID) (\<lambda>hfs.
                 bindE (vecSet2 (heightFallback s') j k False) (\<lambda>fb.
                   Inr (s'\<lparr>heightFields := hfs, heightFallback := fb\<rparr>)))) s)) st)
          (\<lambda>s. Inr (s\<lparr>numHeightFieldsInCache := 0\<rparr>))
      else Inr st)"

definition contenderBody ::
  "'p Env \<Rightarrow> 'p Sampling \<Rightarrow> 'p Request \<Rightarrow> Pixel \<Rightarrow> nat \<Rightarrow> 'p Sweep \<Rightarrow> error + 'p Sweep" where
  "contenderBody env smp rq px i st =
     bindE (contenderFetch env rq i st) (\<lambda>(proceed, st1).
       if proceed then bindE (contenderSample env smp rq px i st1) contenderEvict
       else Inr st1)"

text \<open>\<open>for (int i = 0; i < contenders.size() && resolvedIndex < 0; ++i)\<close>, \<open>n\<close> the size.\<close>

function contenderLoop ::
  "'p Env \<Rightarrow> 'p Sampling \<Rightarrow> 'p Request \<Rightarrow> Pixel \<Rightarrow> nat \<Rightarrow> nat \<Rightarrow> 'p Sweep \<Rightarrow> error + 'p Sweep" where
  "contenderLoop env smp rq px n i st =
     (if i < n \<and> resolvedIndex st < 0
      then bindE (contenderBody env smp rq px i st) (contenderLoop env smp rq px n (i + 1))
      else Inr st)"
  by pat_completeness auto
termination
  by (relation "measure (\<lambda>(env, smp, rq, px, n, i, st). n - i)") auto

declare contenderLoop.simps [simp del]

subsection \<open>The offset loop\<close>

text \<open>
  The first part of the body of the offset loop, for the entry \<open>i\<close> and the slot
  \<open>n = 4\<close>: an offset below the resolved layer is skipped, a failed one too; the grid is
  loaded on demand, without walking to parents. The boolean tells whether the body goes on.
\<close>

definition offsetFetch ::
  "'p Env \<Rightarrow> 'p Request \<Rightarrow> nat \<Rightarrow> 'p Sweep \<Rightarrow> error + (bool \<times> 'p Sweep)" where
  "offsetFetch env rq i st =
     bindE (vecGet (offsets st) i) (\<lambda>ld.
       if resolvedIndex st \<ge> 0 \<and> ldIndex ld < resolvedIndex st then Inr (False, st)
       else
         bindE (vecGet2 (offsetFailed st) 4 i) (\<lambda>failed.
           if failed then Inr (False, st)
           else
             bindE (vecGet2 (offsetFields st) 4 i) (\<lambda>layerHF.
               if \<not> ghfValid layerHF then
                 (case createHeightField env (ldLayer ld) (ldKey ld) (rqProgress rq)
                         (world st (nat (ldIndex ld))) of
                    (g, lst') \<Rightarrow>
                      bindE (vecSet2 (offsetFields st) 4 i g) (\<lambda>ofs.
                        let st1 = st\<lparr>offsetFields := ofs,
                                     world := (world st)(nat (ldIndex ld) := lst')\<rparr>
                        in
                        if \<not> ghfValid g then
                          bindE (vecSet2 (offsetFailed st1) 4 i True) (\<lambda>fl.
                            Inr (False, st1\<lparr>offsetFailed := fl\<rparr>))
                        else Inr (True, st1)))
               else Inr (True, st))))"

text \<open>
  The second part: there is a grid in the slot. \<open>realData\<close> is set at once; then the grid
  is sampled, and a sample other than \<open>NO_DATA_VALUE\<close> is added to the height and
  overwrites \<open>deltaLOD\<close>.
\<close>

definition offsetApply ::
  "'p Env \<Rightarrow> 'p Sampling \<Rightarrow> 'p Request \<Rightarrow> Pixel \<Rightarrow> nat \<Rightarrow> 'p Sweep \<Rightarrow> error + 'p Sweep" where
  "offsetApply env smp rq px i st =
     bindE (vecGet (offsets st) i) (\<lambda>ld.
     bindE (vecGet2 (offsetFields st) 4 i) (\<lambda>layerHF.
       let st2 = st\<lparr>realData := True\<rparr> in
       (case getElevation smp layerHF (rqKeySRS rq) (pxX px) (pxY px) (rqInterpolation rq) of
          Some elevation \<Rightarrow>
            if fl_neq elevation (NO_DATA_VALUE env) then
              bindE (getHeight (swHF st2) (pxC px) (pxR px)) (\<lambda>old.
              bindE (setHeight (swHF st2) (pxC px) (pxR px) (fl_add old elevation)) (\<lambda>hf'.
              bindE (vecSet (deltaLOD st2)
                       (unat (pxR px * getNumColumns (swHF st2) + pxC px))
                       (ucast (getLOD (rqKey rq) - getLOD (ldKey ld)))) (\<lambda>dl.
                Inr (st2\<lparr>swHF := hf', deltaLOD := dl\<rparr>))))
            else Inr st2
        | None \<Rightarrow> Inr st2)))"

definition offsetBody ::
  "'p Env \<Rightarrow> 'p Sampling \<Rightarrow> 'p Request \<Rightarrow> Pixel \<Rightarrow> nat \<Rightarrow> 'p Sweep \<Rightarrow> error + 'p Sweep" where
  "offsetBody env smp rq px i st =
     bindE (offsetFetch env rq i st) (\<lambda>(proceed, st1).
       if proceed then offsetApply env smp rq px i st1 else Inr st1)"

text \<open>\<open>for (int i = offsets.size()-1; i >= 0; --i)\<close>.\<close>

function offsetLoop ::
  "'p Env \<Rightarrow> 'p Sampling \<Rightarrow> 'p Request \<Rightarrow> Pixel \<Rightarrow> int \<Rightarrow> 'p Sweep \<Rightarrow> error + 'p Sweep" where
  "offsetLoop env smp rq px i st =
     (if i \<ge> 0
      then bindE (offsetBody env smp rq px (nat i) st) (offsetLoop env smp rq px (i - 1))
      else Inr st)"
  by pat_completeness auto
termination
  by (relation "measure (\<lambda>(env, smp, rq, px, i, st). nat (i + 1))") auto

declare offsetLoop.simps [simp del]

subsection \<open>The sweep\<close>

text \<open>One pixel: \<open>resolvedIndex\<close> starts at -1; the contenders, then the offsets.\<close>

definition pixelSweep ::
  "'p Env \<Rightarrow> 'p Sampling \<Rightarrow> 'p Request \<Rightarrow> Pixel \<Rightarrow> 'p Sweep \<Rightarrow> error + 'p Sweep" where
  "pixelSweep env smp rq px st =
     bindE (contenderLoop env smp rq px (length (contenders st)) 0 (st\<lparr>resolvedIndex := - 1\<rparr>))
       (\<lambda>st1. offsetLoop env smp rq px (int (length (offsets st1)) - 1) st1)"

text \<open>
  The sweep over the columns and, in each, over the rows. The intervals divide by the
  \<open>unsigned\<close> count minus one.
\<close>

definition sweep ::
  "'p Env \<Rightarrow> 'p Sampling \<Rightarrow> 'p Request \<Rightarrow> GeoExtent \<Rightarrow> 'p Sweep \<Rightarrow> error + 'p Sweep" where
  "sweep env smp rq ex st =
     (let numColumns = getNumColumns (swHF st);
          numRows = getNumRows (swHF st);
          dx = extWidth ex / real (unat (numColumns - 1));
          dy = extHeight ex / real (unat (numRows - 1))
      in forEachM [0..<unat numColumns] (\<lambda>c.
           forEachM [0..<unat numRows] (\<lambda>r.
             pixelSweep env smp rq
               \<lparr>pxX = xMin ex + dx * real c, pxY = yMin ex + dy * real r,
                pxC = of_nat c, pxR = of_nat r\<rparr>)) st)"

subsection \<open>The normal map\<close>

text \<open>
  \<open>getNormal\<close> and the arithmetic of \<open>osg::Vec3\<close> are floating-point computations (a
  cosine, a cross product, a normalization); they are parameters. The factors of the
  interpolation are differences of pixel indices.
\<close>

record 'v VecOps =
  getNormal :: "GeoExtent \<Rightarrow> HeightField \<Rightarrow> int \<Rightarrow> int \<Rightarrow> 'v"
  vscale :: "'v \<Rightarrow> int \<Rightarrow> 'v"
  vadd :: "'v \<Rightarrow> 'v \<Rightarrow> 'v"
  vnormalize :: "'v \<Rightarrow> 'v"

text \<open>A normal map: the normal and the curvature set at a pixel.\<close>

type_synonym 'v NormalMap = "int \<times> int \<Rightarrow> ('v \<times> real) option"

text \<open>\<open>1 << d\<close> on \<open>int\<close>: defined for counts from 0 to 30.\<close>

definition shiftLeftOne :: "int \<Rightarrow> error + int" where
  "shiftLeftOne d = (if 0 \<le> d \<and> d < 31 then Inr (2 ^ nat d) else Inl UndefinedShift)"

text \<open>
  \<open>int step = 1 << (*deltaLOD)[t*h + s]\<close>, with \<open>h\<close> the number of rows as an \<open>int\<close>.
\<close>

definition normalStep :: "HeightField \<Rightarrow> 16 word list \<Rightarrow> int \<Rightarrow> int \<Rightarrow> error + int" where
  "normalStep hf dl s t =
     (let h = sint (getNumRows hf) in
      if t * h + s < 0 then Inl OutOfBounds
      else bindE (vecGet dl (nat (t * h + s))) (\<lambda>d. shiftLeftOne (sint d)))"

text \<open>The normal of the pixel (s, t) of \<open>createNormalMap\<close>.\<close>

definition normalAt ::
  "'v VecOps \<Rightarrow> GeoExtent \<Rightarrow> HeightField \<Rightarrow> 16 word list \<Rightarrow> int \<Rightarrow> int \<Rightarrow> error + 'v" where
  "normalAt ops ex hf dl s t =
     (let w = sint (getNumColumns hf); h = sint (getNumRows hf) in
      bindE (normalStep hf dl s t) (\<lambda>step.
        if step = 1 then Inr (vnormalize ops (getNormal ops ex hf s t))
        else
          (let s0 = max (s - s mod step) 0;
               s1 = (if s mod step = 0 then s0 else min (s0 + step) (w - 1));
               t0 = max (t - t mod step) 0;
               t1 = (if t mod step = 0 then t0 else min (t0 + step) (h - 1))
           in
           if s0 = s1 \<and> t0 = t1 then Inr (vnormalize ops (getNormal ops ex hf s0 t0))
           else if s0 = s1 then
             (let S = getNormal ops ex hf s0 t0; N = getNormal ops ex hf s0 t1
              in Inr (vnormalize ops (vadd ops (vscale ops S (t1 - t)) (vscale ops N (t - t0)))))
           else if t0 = t1 then
             (let W = getNormal ops ex hf s0 t0; E = getNormal ops ex hf s1 t0
              in Inr (vnormalize ops (vadd ops (vscale ops W (s1 - s)) (vscale ops E (s - s0)))))
           else
             (let SW = getNormal ops ex hf s0 t0; SE = getNormal ops ex hf s1 t0;
                  NW = getNormal ops ex hf s0 t1; NE = getNormal ops ex hf s1 t1;
                  S = vadd ops (vscale ops SW (s1 - s)) (vscale ops SE (s - s0));
                  N = vadd ops (vscale ops NW (s1 - s)) (vscale ops NE (s - s0))
              in Inr (vnormalize ops (vadd ops (vscale ops S (t1 - t)) (vscale ops N (t - t0))))))))"

text \<open>\<open>createNormalMap\<close>: the rows, and in each the columns; the curvature is 0.\<close>

definition createNormalMap ::
  "'v VecOps \<Rightarrow> GeoExtent \<Rightarrow> HeightField \<Rightarrow> 16 word list \<Rightarrow> 'v NormalMap \<Rightarrow> error + 'v NormalMap" where
  "createNormalMap ops ex hf dl normalMap =
     forEachM [0..<unat (getNumRows hf)] (\<lambda>t.
       forEachM [0..<unat (getNumColumns hf)] (\<lambda>s nm.
         bindE (normalAt ops ex hf dl (int s) (int t)) (\<lambda>normal.
           Inr (nm((int s, int t) \<mapsto> (normal, 0)))))) normalMap"

subsection \<open>populateHeightFieldAndNormalMap\<close>

text \<open>
  What a call leaves: the value returned, the height grid, the normal map and the states of
  the layers.
\<close>

record ('p, 'v) Populated =
  popReturn :: bool
  popHF :: "HeightField option"
  popNormalMap :: "'v NormalMap option"
  popWorld :: "nat \<Rightarrow> 'p LayerState"

definition populateHeightFieldAndNormalMap ::
  "'p Env \<Rightarrow> 'p Sampling \<Rightarrow> 'v VecOps \<Rightarrow> 'p Layer list \<Rightarrow> HeightField option \<Rightarrow> 'v NormalMap option
     \<Rightarrow> 'p TileKey \<Rightarrow> 'p option \<Rightarrow> ElevationInterpolation \<Rightarrow> Progress option
     \<Rightarrow> (nat \<Rightarrow> 'p LayerState) \<Rightarrow> error + ('p, 'v) Populated" where
  "populateHeightFieldAndNormalMap env smp ops layers hf normalMap key haeProfile interpolation
       progress w =
     (case hf of
        None \<Rightarrow> Inr \<lparr>popReturn = False, popHF = None, popNormalMap = normalMap, popWorld = w\<rparr>
      | Some h \<Rightarrow>
          (let keyToUse = (case haeProfile of
                             None \<Rightarrow> key
                           | Some p \<Rightarrow> TileKey (getLOD key) (getTileX key) (getTileY key) (Some p))
           in
           case collectLayers smp layers h key keyToUse (length layers) ([], [], 0) of
             (cs, os, numFallbackLayers) \<Rightarrow>
               if cs = [] \<and> os = [] then
                 Inr \<lparr>popReturn = False, popHF = Some h, popNormalMap = normalMap, popWorld = w\<rparr>
               else if length cs + length os = unat numFallbackLayers then
                 Inr \<lparr>popReturn = False, popHF = Some h, popNormalMap = normalMap, popWorld = w\<rparr>
               else
                 bindE (sweep env smp
                          \<lparr>rqKey = key, rqKeySRS = getProfile keyToUse,
                           rqInterpolation = interpolation, rqProgress = progress\<rparr>
                          (getExtent env key) (initSweep h cs os w)) (\<lambda>st.
                 bindE (case normalMap of
                          None \<Rightarrow> Inr None
                        | Some nm \<Rightarrow>
                            bindE (createNormalMap ops (getExtent env key) (swHF st) (deltaLOD st) nm)
                              (\<lambda>nm'. Inr (Some nm'))) (\<lambda>nm'.
                   Inr \<lparr>popReturn = realData st, popHF = Some (swHF st), popNormalMap = nm',
                        popWorld = world st\<rparr>))))"

subsection \<open>Predicates on the state of the sweep\<close>

text \<open>An array of nine flag vectors of nine flags each.\<close>

definition rows9 :: "'a list list \<Rightarrow> bool" where
  "rows9 xss = (length xss = 9 \<and> (\<forall>row \<in> set xss. length row = 9))"

text \<open>The three flag arrays of the sweep have that shape.\<close>

definition flagsOfNine :: "'p Sweep \<Rightarrow> bool" where
  "flagsOfNine st = (rows9 (heightFallback st) \<and> rows9 (heightFailed st) \<and> rows9 (offsetFailed st))"

text \<open>What the eviction of the contender grids leaves alone in a sweep state.\<close>

definition evictKeeps :: "'p Sweep \<Rightarrow> 'p Sweep \<Rightarrow> bool" where
  "evictKeeps st s =
     (realData s = realData st \<and> offsetFields s = offsetFields st
      \<and> offsetFailed s = offsetFailed st \<and> heightFailed s = heightFailed st
      \<and> contenders s = contenders st \<and> offsets s = offsets st
      \<and> (rows9 (heightFallback st) \<longrightarrow> rows9 (heightFallback s)))"

text \<open>Some offset entry has a valid grid in its slot of the centre tile.\<close>

definition offsetGridHeld :: "'p Sweep \<Rightarrow> bool" where
  "offsetGridHeld st =
     (\<exists>i. 4 < length (offsetFields st) \<and> i < length (offsetFields st ! 4)
          \<and> ghfValid (offsetFields st ! 4 ! i))"

text \<open>An offset grid in a slot goes with \<open>realData\<close>.\<close>

definition heldIsReal :: "'p Sweep \<Rightarrow> bool" where
  "heldIsReal st = (offsetGridHeld st \<longrightarrow> realData st)"

text \<open>
  A run that stays within bounds: the computation returns, and what it returns satisfies
  \<open>P\<close>.
\<close>

definition okE :: "error + 'a \<Rightarrow> ('a \<Rightarrow> bool) \<Rightarrow> bool" where
  "okE m P = (case m of Inl e \<Rightarrow> False | Inr x \<Rightarrow> P x)"






section \<open>Example inputs\<close>

text \<open>
  \<open>FLT_MAX\<close> of \<open>cfloat\<close>; osgEarth's marker is its negation. \<open>osg::equivalent\<close> with its
  default tolerance: the difference of the two floats lies within 1e-6 (a NaN or an
  infinite difference does not).
\<close>

definition FLT_MAX :: real where
  "FLT_MAX = 340282346638528859811704183484516925440"

definition NO_DATA_ex :: cfloat where
  "NO_DATA_ex = Fin (- FLT_MAX)"

definition equivalent_eps :: "cfloat \<Rightarrow> cfloat \<Rightarrow> bool" where
  "equivalent_eps a b =
     (case (a, b) of (Fin x, Fin y) \<Rightarrow> \<bar>y - x\<bar> \<le> 1 / 1000000 | _ \<Rightarrow> False)"

text \<open>A normalizer with the usual thresholds, and one whose lower threshold is a NaN.\<close>

definition op_ex :: NormalizeNoDataValues where
  "op_ex = \<lparr>noDataValue = Fin (- 32767), minValidValue = Fin (- 32000), maxValidValue = Fin 32000\<rparr>"

definition op_nan_ex :: NormalizeNoDataValues where
  "op_nan_ex = \<lparr>noDataValue = Fin (- 32767), minValidValue = NaN, maxValidValue = Fin 32000\<rparr>"

text \<open>A world, a layer around a given driver, an empty layer state and a key, for the examples.\<close>

definition env_ex :: "nat Env" where
  "env_ex =
     \<lparr>NO_DATA_VALUE = NO_DATA_ex, equivalent = equivalent_eps,
      keyStr = (\<lambda>k. ''key''), getFullSignature = (\<lambda>p. ''sig''),
      isHorizEquivalentTo = (\<lambda>a b. a = b), isVertEquivalentTo = (\<lambda>a b. True),
      VerticalDatum_transform = (\<lambda>a b ex h. h),
      getExtent = (\<lambda>k. \<lparr>extIsValid = True, xMin = 0, yMin = 0, xMax = 1, yMax = 1,
                          extWidth = 1, extHeight = 1, extIsGeographic = False\<rparr>),
      hasVerticalDatum = (\<lambda>p. False), getGeoid = (\<lambda>p. None),
      resolveInvalidHeights = (\<lambda>h ex v g. h), cacheClock = 7,
      assembleHeightField = (\<lambda>ly k pr st. (None, st))\<rparr>"

definition layer_ex :: "(nat TileKey \<Rightarrow> Progress option \<Rightarrow> HeightField option) \<Rightarrow> nat Layer" where
  "layer_ex drv =
     \<lparr>getEnabled = True, getVisible = True, getTileSize = 2, isOffset = False,
      getNoDataValue = Fin (- 32767), getMinValidValue = Fin (- 32000),
      getMaxValidValue = Fin 32000,
      hasTileSource = True, tileSourceIsOK = True, isTileSourceExpected = True,
      layerProfile = Some 0, hasMemCache = False, hasCacheBin = (\<lambda>p. True),
      isCacheOnly = False, isCacheReadable = True, isCacheWriteable = True,
      isExpired = (\<lambda>t. t < 5), isKeyInLegalRange = (\<lambda>k. True), mayHaveData = (\<lambda>k. True),
      getBestAvailableTileKey = (\<lambda>k. k), driver = drv, noDataPolicyMSL = False\<rparr>"

definition state_ex :: "nat LayerState" where
  "state_ex = \<lparr>statusIsError = False, blacklist = {}, memCache = Map.empty,
               cacheBin = Map.empty, driverCalls = []\<rparr>"

definition key_ex :: "nat TileKey" where
  "key_ex = TileKey 3 1 2 (Some 0)"

definition no_driver :: "nat TileKey \<Rightarrow> Progress option \<Rightarrow> HeightField option" where
  "no_driver k pr = None"





text \<open>
  Examples for the compositor: a sampler that yields the first sample of a grid, vector
  operations without content, drivers of constant 2 by 2 grids (one that has data only up to
  level 2), an output grid, layers that are offsets, a request and a pixel; the sweep state
  and the call of \<open>populateHeightFieldAndNormalMap\<close> for a vector of layers.
\<close>

definition smp_ex :: "nat Sampling" where
  "smp_ex =
     \<lparr>mapResolution = (\<lambda>k target tileSize. k),
      getElevation = (\<lambda>g srs x y interp.
         case ghfHeightField g of
           None \<Rightarrow> None
         | Some h \<Rightarrow> (case getHeightList h of [] \<Rightarrow> None | v # vs \<Rightarrow> Some v))\<rparr>"

definition ops_ex :: "unit VecOps" where
  "ops_ex = \<lparr>getNormal = (\<lambda>ex hf s t. ()), vscale = (\<lambda>v k. ()), vadd = (\<lambda>a b. ()),
             vnormalize = (\<lambda>v. ())\<rparr>"

definition const_driver :: "cfloat \<Rightarrow> nat TileKey \<Rightarrow> Progress option \<Rightarrow> HeightField option" where
  "const_driver v k pr = Some (mkHeightField 2 2 [v, v, v, v])"

definition coarse_driver :: "cfloat \<Rightarrow> nat TileKey \<Rightarrow> Progress option \<Rightarrow> HeightField option" where
  "coarse_driver v k pr = (if getLOD k \<le> 2 then Some (mkHeightField 2 2 [v, v, v, v]) else None)"

definition out_ex :: HeightField where
  "out_ex = mkHeightField 2 2 [Fin 0, Fin 0, Fin 0, Fin 0]"

definition world_ex :: "nat \<Rightarrow> nat LayerState" where
  "world_ex = (\<lambda>i. state_ex)"

definition offset_ex :: "cfloat \<Rightarrow> nat Layer" where
  "offset_ex v = (layer_ex (const_driver v))\<lparr>isOffset := True\<rparr>"

definition parent_offset_ex :: "cfloat \<Rightarrow> nat Layer" where
  "parent_offset_ex v =
     (layer_ex (const_driver v))\<lparr>isOffset := True, getBestAvailableTileKey := createParentKey\<rparr>"

definition rq_ex :: "nat Request" where
  "rq_ex = \<lparr>rqKey = key_ex, rqKeySRS = Some 0, rqInterpolation = INTERP_BILINEAR,
            rqProgress = None\<rparr>"

definition px_ex :: Pixel where
  "px_ex = \<lparr>pxX = 0, pxY = 0, pxC = 0, pxR = 0\<rparr>"

definition sweep_of_ex :: "nat Layer list \<Rightarrow> nat Sweep" where
  "sweep_of_ex layers =
     (case collectLayers smp_ex layers out_ex key_ex key_ex (length layers) ([], [], 0) of
        (cs, os, nf) \<Rightarrow> initSweep out_ex cs os world_ex)"

definition two_offsets_ex :: "nat Sweep" where
  "two_offsets_ex = sweep_of_ex [offset_ex (Fin 3), parent_offset_ex (Fin 5)]"

definition populate_ex ::
  "nat Layer list \<Rightarrow> error + (bool \<times> HeightField option)" where
  "populate_ex layers =
     (case populateHeightFieldAndNormalMap env_ex smp_ex ops_ex layers (Some out_ex) None key_ex
             None INTERP_BILINEAR None world_ex of
        Inl e \<Rightarrow> Inl e
      | Inr r \<Rightarrow> Inr (popReturn r, popHF r))"

section \<open>Properties of the normalizer and the validator\<close>

lemma fl_not_less_le:
  "\<not> isNaN a \<Longrightarrow> \<not> isNaN b \<Longrightarrow> \<not> fl_less a b \<Longrightarrow> fl_le b a"
  by (cases a; cases b) (auto simp: fl_le_def fl_eq_def)

lemma normalizeValue_cases:
  "normalizeValue nd eqv op v = nd \<or>
   (normalizeValue nd eqv op v = v \<and> \<not> isNaN v \<and> \<not> eqv v (noDataValue op)
      \<and> \<not> fl_less v (minValidValue op) \<and> \<not> fl_less (maxValidValue op) v)"
  by (simp add: normalizeValue_def)

lemma unat_mult_small:
  fixes c r :: "32 word"
  assumes "c \<le> 1024" "r \<le> 1024"
  shows "unat (c * r) = unat c * unat r"
proof -
  have c: "unat c \<le> 1024" using assms(1) by (simp add: word_le_nat_alt)
  have r: "unat r \<le> 1024" using assms(2) by (simp add: word_le_nat_alt)
  have "unat c * unat r \<le> 1024 * 1024" using c r by (rule mult_le_mono)
  then have "unat c * unat r < 2 ^ 32" by simp
  then show ?thesis by (simp add: unat_word_ariths)
qed

lemma validateHeightField_Some:
  "validateHeightField (Some h) \<longleftrightarrow>
     2 \<le> getNumRows h \<and> getNumRows h \<le> 1024 \<and> 2 \<le> getNumColumns h \<and> getNumColumns h \<le> 1024
     \<and> length (getHeightList h) = unat (getNumColumns h) * unat (getNumRows h)"
  by (auto simp: validateHeightField_def unat_mult_small not_less)

text \<open>
  C5. \<open>validateHeightField\<close> accepts a grid exactly when its row count and its column
  count lie in [2, 1024] and the length of its storage is columns times rows. A 2 by 2 and
  a 1024 by 1024 grid with matching storage pass; a grid with 1 or 1025 rows or columns
  fails whatever its storage is.
\<close>

theorem validateHeightField_accepts_iff:
  "(validateHeightField (Some h) \<longleftrightarrow>
      2 \<le> unat (getNumRows h) \<and> unat (getNumRows h) \<le> 1024
      \<and> 2 \<le> unat (getNumColumns h) \<and> unat (getNumColumns h) \<le> 1024
      \<and> length (getHeightList h) = unat (getNumColumns h) * unat (getNumRows h))
   \<and> validateHeightField (Some (mkHeightField 2 2 (replicate 4 v)))
   \<and> validateHeightField (Some (mkHeightField 1024 1024 (replicate (1024 * 1024) v)))
   \<and> \<not> validateHeightField (Some (mkHeightField 1 c hs))
   \<and> \<not> validateHeightField (Some (mkHeightField 1025 c hs))
   \<and> \<not> validateHeightField (Some (mkHeightField c 1 hs))
   \<and> \<not> validateHeightField (Some (mkHeightField c 1025 hs))"
proof -
  have "validateHeightField (Some h) \<longleftrightarrow>
      2 \<le> unat (getNumRows h) \<and> unat (getNumRows h) \<le> 1024
      \<and> 2 \<le> unat (getNumColumns h) \<and> unat (getNumColumns h) \<le> 1024
      \<and> length (getHeightList h) = unat (getNumColumns h) * unat (getNumRows h)"
    by (simp add: validateHeightField_Some word_le_nat_alt)
  moreover have "validateHeightField (Some (mkHeightField 2 2 (replicate 4 v)))"
    by (simp add: validateHeightField_Some mkHeightField_def)
  moreover have "validateHeightField (Some (mkHeightField 1024 1024 (replicate (1024 * 1024) v)))"
    by (simp add: validateHeightField_Some mkHeightField_def)
  moreover have "\<not> validateHeightField (Some (mkHeightField 1 c hs))"
    by (simp add: validateHeightField_Some mkHeightField_def word_le_nat_alt)
  moreover have "\<not> validateHeightField (Some (mkHeightField 1025 c hs))"
    by (simp add: validateHeightField_Some mkHeightField_def word_le_nat_alt)
  moreover have "\<not> validateHeightField (Some (mkHeightField c 1 hs))"
    by (simp add: validateHeightField_Some mkHeightField_def word_le_nat_alt)
  moreover have "\<not> validateHeightField (Some (mkHeightField c 1025 hs))"
    by (simp add: validateHeightField_Some mkHeightField_def word_le_nat_alt)
  ultimately show ?thesis by blast
qed

theorem validateHeightField_accepts_iff_witness:
  "validateHeightField (Some (mkHeightField 3 2 (replicate 6 (Fin 0))))
   \<and> \<not> validateHeightField (Some (mkHeightField 3 2 (replicate 5 (Fin 0))))"
  using validateHeightField_accepts_iff [of "mkHeightField 3 2 (replicate 6 (Fin 0))"]
    validateHeightField_accepts_iff [of "mkHeightField 3 2 (replicate 5 (Fin 0))"]
  by (simp add: mkHeightField_def)

lemma normalizeNoData_heights:
  "normalizeNoData nd eqv op (Some h) = Some h'
     \<Longrightarrow> getHeightList h' = map (normalizeValue nd eqv op) (getHeightList h)"
  by (auto simp: normalizeNoData_def)

text \<open>
  C4, as the code has it. After \<open>NormalizeNoDataValues\<close> has run on a grid, every sample
  is the \<open>NO_DATA_VALUE\<close> marker, or it is not a NaN, not equivalent to the layer's
  \<open>noDataValue\<close>, not below \<open>minValidValue\<close> and not above \<open>maxValidValue\<close>; that is
  \<open>minValidValue <= v <= maxValidValue\<close> for each threshold that is not itself a NaN.
\<close>

theorem normalizeNoData_samples:
  assumes "normalizeNoData nd eqv op (Some h) = Some h'"
    and "v \<in> set (getHeightList h')"
  shows "v = nd \<or>
     (\<not> isNaN v \<and> \<not> eqv v (noDataValue op)
      \<and> \<not> fl_less v (minValidValue op) \<and> \<not> fl_less (maxValidValue op) v
      \<and> (\<not> isNaN (minValidValue op) \<longrightarrow> fl_le (minValidValue op) v)
      \<and> (\<not> isNaN (maxValidValue op) \<longrightarrow> fl_le v (maxValidValue op)))"
proof -
  from assms obtain u where v: "v = normalizeValue nd eqv op u"
    by (auto simp: normalizeNoData_heights)
  show ?thesis
  proof (cases "v = nd")
    case True
    then show ?thesis by simp
  next
    case False
    with v normalizeValue_cases [of nd eqv op u]
    have keep: "\<not> isNaN v" "\<not> eqv v (noDataValue op)"
      "\<not> fl_less v (minValidValue op)" "\<not> fl_less (maxValidValue op) v"
      by auto
    from keep(1,3) have "\<not> isNaN (minValidValue op) \<longrightarrow> fl_le (minValidValue op) v"
      by (auto intro: fl_not_less_le)
    moreover from keep(1,4) have "\<not> isNaN (maxValidValue op) \<longrightarrow> fl_le v (maxValidValue op)"
      by (auto intro: fl_not_less_le)
    ultimately show ?thesis using keep by simp
  qed
qed

lemma normalize_ex_run:
  "normalizeNoData NO_DATA_ex equivalent_eps op_ex
     (Some (mkHeightField 2 2 [Fin 5, NaN, Fin (- 32767), Fin 40000]))
   = Some (mkHeightField 2 2 [Fin 5, NO_DATA_ex, NO_DATA_ex, NO_DATA_ex])"
  by (simp add: normalizeNoData_def normalizeValue_def mkHeightField_def op_ex_def
      equivalent_eps_def)

theorem normalizeNoData_samples_witness:
  "normalizeNoData NO_DATA_ex equivalent_eps op_ex
     (Some (mkHeightField 2 2 [Fin 5, NaN, Fin (- 32767), Fin 40000]))
   = Some (mkHeightField 2 2 [Fin 5, NO_DATA_ex, NO_DATA_ex, NO_DATA_ex])
   \<and> Fin 5 \<in> set (getHeightList (mkHeightField 2 2 [Fin 5, NO_DATA_ex, NO_DATA_ex, NO_DATA_ex]))
   \<and> Fin 5 \<noteq> NO_DATA_ex
   \<and> fl_le (minValidValue op_ex) (Fin 5) \<and> fl_le (Fin 5) (maxValidValue op_ex)"
proof -
  have mem: "Fin 5 \<in> set (getHeightList (mkHeightField 2 2 [Fin 5, NO_DATA_ex, NO_DATA_ex, NO_DATA_ex]))"
    by (simp add: mkHeightField_def)
  have ne: "Fin 5 \<noteq> NO_DATA_ex"
    by (simp add: NO_DATA_ex_def FLT_MAX_def)
  from normalizeNoData_samples [OF normalize_ex_run mem] ne
  have "fl_le (minValidValue op_ex) (Fin 5) \<and> fl_le (Fin 5) (maxValidValue op_ex)"
    by (simp add: op_ex_def)
  with normalize_ex_run mem ne show ?thesis by simp
qed

text \<open>
  C4 as the claim words it fails when a threshold is a NaN: the comparison with it is
  false, the sample 5 is kept, and \<open>minValidValue <= 5\<close> does not hold.
\<close>

theorem normalizeNoData_nan_threshold_counterexample:
  "normalizeNoData NO_DATA_ex equivalent_eps op_nan_ex
     (Some (mkHeightField 2 2 [Fin 5, Fin 5, Fin 5, Fin 5]))
   = Some (mkHeightField 2 2 [Fin 5, Fin 5, Fin 5, Fin 5])
   \<and> Fin 5 \<in> set (getHeightList (mkHeightField 2 2 [Fin 5, Fin 5, Fin 5, Fin 5]))
   \<and> \<not> (Fin 5 = NO_DATA_ex \<or>
         (\<not> isNaN (Fin 5) \<and> fl_le (minValidValue op_nan_ex) (Fin 5)
          \<and> fl_le (Fin 5) (maxValidValue op_nan_ex)
          \<and> \<not> equivalent_eps (Fin 5) (noDataValue op_nan_ex)))"
  by (simp add: normalizeNoData_def normalizeValue_def mkHeightField_def op_nan_ex_def
      equivalent_eps_def NO_DATA_ex_def FLT_MAX_def fl_le_def fl_eq_def)

section \<open>Properties of the single-layer synthesis\<close>

text \<open>
  C6. The key is horizontally equivalent to the layer's profile, the source may have data
  and the driver yields no grid. Then \<open>createHeightFieldFromTileSource\<close> returns null, and
  the key is in the blacklist afterwards exactly when there is no progress callback or the
  callback reports neither canceled nor needs-retry; otherwise the blacklist is unchanged.
\<close>

theorem failed_fetch_blacklist:
  assumes "hasTileSource ly" and "key \<notin> blacklist st"
    and "isHorizEquivalentTo env (getProfile key) (layerProfile ly)"
    and "mayHaveData ly key"
    and "driver ly key progress = None"
  shows "fst (createHeightFieldFromTileSource env ly key progress st) = None
     \<and> (key \<in> blacklist (snd (createHeightFieldFromTileSource env ly key progress st))
          \<longleftrightarrow> (case progress of None \<Rightarrow> True | Some p \<Rightarrow> \<not> isCanceled p \<and> \<not> needsRetry p))
     \<and> blacklist (snd (createHeightFieldFromTileSource env ly key progress st))
          = (if (case progress of None \<Rightarrow> True | Some p \<Rightarrow> \<not> isCanceled p \<and> \<not> needsRetry p)
             then insert key (blacklist st) else blacklist st)"
  using assms
  by (simp add: createHeightFieldFromTileSource_def sourceCreateHeightField_def
      normalizeNoData_def notCanceled_def)

theorem failed_fetch_blacklist_witness:
  "key_ex \<in> blacklist (snd (createHeightFieldFromTileSource env_ex (layer_ex no_driver) key_ex None state_ex))
   \<and> key_ex \<notin> blacklist (snd (createHeightFieldFromTileSource env_ex (layer_ex no_driver) key_ex
        (Some \<lparr>isCanceled = True, needsRetry = False\<rparr>) state_ex))
   \<and> key_ex \<notin> blacklist (snd (createHeightFieldFromTileSource env_ex (layer_ex no_driver) key_ex
        (Some \<lparr>isCanceled = False, needsRetry = True\<rparr>) state_ex))
   \<and> key_ex \<in> blacklist (snd (createHeightFieldFromTileSource env_ex (layer_ex no_driver) key_ex
        (Some \<lparr>isCanceled = False, needsRetry = False\<rparr>) state_ex))"
  using failed_fetch_blacklist [of "layer_ex no_driver" key_ex state_ex env_ex None]
    failed_fetch_blacklist [of "layer_ex no_driver" key_ex state_ex env_ex
      "Some \<lparr>isCanceled = True, needsRetry = False\<rparr>"]
    failed_fetch_blacklist [of "layer_ex no_driver" key_ex state_ex env_ex
      "Some \<lparr>isCanceled = False, needsRetry = True\<rparr>"]
    failed_fetch_blacklist [of "layer_ex no_driver" key_ex state_ex env_ex
      "Some \<lparr>isCanceled = False, needsRetry = False\<rparr>"]
  by (simp add: layer_ex_def state_ex_def env_ex_def key_ex_def no_driver_def)

text \<open>
  C7. For a key in the blacklist, \<open>createHeightFieldFromTileSource\<close> returns null and
  leaves the layer state as it was; in particular the list of driver calls is unchanged, so
  the driver was not invoked.
\<close>

theorem blacklisted_key_no_driver_call:
  assumes "key \<in> blacklist st"
  shows "createHeightFieldFromTileSource env ly key progress st = (None, st)"
  using assms by (simp add: createHeightFieldFromTileSource_def)

theorem blacklisted_key_no_driver_call_witness:
  "createHeightFieldFromTileSource env_ex (layer_ex no_driver) key_ex None
     (state_ex\<lparr>blacklist := {key_ex}\<rparr>) = (None, state_ex\<lparr>blacklist := {key_ex}\<rparr>)
   \<and> driverCalls (snd (createHeightFieldFromTileSource env_ex (layer_ex no_driver) key_ex None
        (state_ex\<lparr>blacklist := {key_ex}\<rparr>))) = []
   \<and> driverCalls (snd (createHeightFieldFromTileSource env_ex (layer_ex no_driver) key_ex None
        state_ex)) = [key_ex]"
  using blacklisted_key_no_driver_call [of key_ex "state_ex\<lparr>blacklist := {key_ex}\<rparr>" env_ex
      "layer_ex no_driver" None]
  by (simp add: state_ex_def createHeightFieldFromTileSource_def sourceCreateHeightField_def
      layer_ex_def env_ex_def key_ex_def no_driver_def normalizeNoData_def notCanceled_def)






section \<open>Properties of the compositor\<close>

lemma bindE_Inr [simp]: "bindE (Inr x) f = f x"
  by (simp add: bindE_def)

lemma bindE_Inl [simp]: "bindE (Inl e) f = Inl e"
  by (simp add: bindE_def)

lemma bindE_eq_Inr: "bindE m f = Inr y \<longleftrightarrow> (\<exists>x. m = Inr x \<and> f x = Inr y)"
  by (cases m) simp_all

lemma forEachM_invariant:
  assumes step: "\<And>x s s'. P s \<Longrightarrow> body x s = Inr s' \<Longrightarrow> P s'"
    and "P s" and "forEachM xs body s = Inr s'"
  shows "P s'"
  using assms(2,3)
proof (induction xs arbitrary: s)
  case Nil
  then show ?case by simp
next
  case (Cons x xs)
  from Cons.prems(2) obtain s1 where s1: "body x s = Inr s1" and rest: "forEachM xs body s1 = Inr s'"
    by (auto simp: bindE_eq_Inr)
  have "P s1" using step [of s x s1] Cons.prems(1) s1 by simp
  then show ?case using Cons.IH [of s1] rest by simp
qed

lemma offsetLoop_negative: "i < 0 \<Longrightarrow> offsetLoop env smp rq px i st = Inr st"
  by (subst offsetLoop.simps) simp

lemma offsetLoop_forEachM:
  "offsetLoop env smp rq px (int n - 1) st = forEachM (rev [0..<n]) (offsetBody env smp rq px) st"
proof (induction n arbitrary: st)
  case 0
  show ?case by (simp add: offsetLoop_negative)
next
  case (Suc n)
  have ih: "offsetLoop env smp rq px (int n - 1) = forEachM (rev [0..<n]) (offsetBody env smp rq px)"
    using Suc.IH by (rule ext)
  have "offsetLoop env smp rq px (int (Suc n) - 1) st
          = bindE (offsetBody env smp rq px n st) (offsetLoop env smp rq px (int n - 1))"
    by (subst offsetLoop.simps) simp
  then show ?case by (simp add: ih)
qed

lemma contenderLoop_invariant:
  assumes step: "\<And>i s s'. i < n \<Longrightarrow> P s \<Longrightarrow> contenderBody env smp rq px i s = Inr s' \<Longrightarrow> P s'"
    and "P st" and "contenderLoop env smp rq px n i st = Inr st'"
  shows "P st'"
  using assms(2,3)
proof (induction k \<equiv> "n - i" arbitrary: i st)
  case 0
  then have "\<not> (i < n \<and> resolvedIndex st < 0)" by simp
  with "0.prems" show ?case by (subst (asm) contenderLoop.simps) simp
next
  case (Suc k)
  show ?case
  proof (cases "i < n \<and> resolvedIndex st < 0")
    case True
    with Suc.prems(2) obtain s1 where b: "contenderBody env smp rq px i st = Inr s1"
      and rest: "contenderLoop env smp rq px n (i + 1) s1 = Inr st'"
      by (subst (asm) contenderLoop.simps) (auto simp: bindE_eq_Inr)
    have p1: "P s1" using step [of i st s1] True Suc.prems(1) b by blast
    have k: "k = n - (i + 1)" using Suc.hyps(2) by simp
    show ?thesis using Suc.hyps(1) [OF k p1 rest] .
  next
    case False
    with Suc.prems show ?thesis by (subst (asm) contenderLoop.simps) simp
  qed
qed

text \<open>
  C8. When the collected contender and offset lists are both empty, or when as many entries
  were counted as fallback as were collected, \<open>populateHeightFieldAndNormalMap\<close> returns
  false and leaves the height grid, the normal map and the states of the layers as they
  were: there is no sweep and no layer is asked for a grid.
\<close>

theorem populate_bails_out:
  assumes "collectLayers smp layers h key
             (case haeProfile of None \<Rightarrow> key
              | Some p \<Rightarrow> TileKey (getLOD key) (getTileX key) (getTileY key) (Some p))
             (length layers) ([], [], 0) = (cs, os, numFallbackLayers)"
    and "(cs = [] \<and> os = []) \<or> length cs + length os = unat numFallbackLayers"
  shows "populateHeightFieldAndNormalMap env smp ops layers (Some h) normalMap key haeProfile
           interpolation progress w
         = Inr \<lparr>popReturn = False, popHF = Some h, popNormalMap = normalMap, popWorld = w\<rparr>"
  using assms by (auto simp: populateHeightFieldAndNormalMap_def Let_def)

lemma vecGet_Inr: "vecGet xs i = Inr x \<longleftrightarrow> i < length xs \<and> x = xs ! i"
  by (auto simp: vecGet_def)

lemma vecSet_Inr: "vecSet xs i v = Inr ys \<longleftrightarrow> i < length xs \<and> ys = xs[i := v]"
  by (auto simp: vecSet_def)

lemma vecGet2_Inr:
  "vecGet2 xss n i = Inr x \<longleftrightarrow> n < length xss \<and> i < length (xss ! n) \<and> x = xss ! n ! i"
  by (auto simp: vecGet2_def bindE_eq_Inr vecGet_Inr)

lemma vecSet2_Inr:
  "vecSet2 xss n i v = Inr yss \<longleftrightarrow>
     n < length xss \<and> i < length (xss ! n) \<and> yss = xss[n := (xss ! n)[i := v]]"
  by (auto simp: vecSet2_def bindE_eq_Inr vecGet_Inr vecSet_Inr)

lemma rows9_update:
  assumes "rows9 xss" and "n < length xss"
  shows "rows9 (xss[n := (xss ! n)[i := v]])"
proof -
  have "length ((xss ! n)[i := v]) = 9" using assms by (simp add: rows9_def)
  moreover have "set (xss[n := (xss ! n)[i := v]]) \<subseteq> insert ((xss ! n)[i := v]) (set xss)"
    by (rule set_update_subset_insert)
  ultimately show ?thesis using assms(1) by (auto simp: rows9_def)
qed





lemma bindE_InrE:
  assumes "bindE m f = Inr y"
  obtains x where "m = Inr x" and "f x = Inr y"
  using assms by (auto simp: bindE_eq_Inr)

lemma contenderFetch_Inr:
  "contenderFetch env rq i st = Inr (b, st') \<Longrightarrow>
     (\<not> b \<and> st' = st)
   \<or> (b \<and> st' = st \<and> (\<exists>g. vecGet2 (heightFields st) 4 i = Inr g \<and> ghfValid g))
   \<or> (\<exists>ld g k l hfs fb. b \<and> ghfValid g
         \<and> vecSet2 (heightFields st) 4 i g = Inr hfs
         \<and> vecSet2 (heightFallback st) 4 i False = Inr fb
         \<and> st' = st\<lparr>heightFields := hfs,
                     contenders := (contenders st)[i := ld\<lparr>ldKey := k\<rparr>],
                     world := (world st)(nat (ldIndex ld) := l),
                     heightFallback := fb,
                     numHeightFieldsInCache := numHeightFieldsInCache st + 1\<rparr>)
   \<or> (\<exists>ld g k l hfs fl. \<not> b \<and> \<not> ghfValid g
         \<and> vecSet2 (heightFields st) 4 i g = Inr hfs
         \<and> vecSet2 (heightFailed st) 4 i True = Inr fl
         \<and> st' = st\<lparr>heightFields := hfs,
                     contenders := (contenders st)[i := ld\<lparr>ldKey := k\<rparr>],
                     world := (world st)(nat (ldIndex ld) := l),
                     heightFailed := fl\<rparr>)"
  apply (unfold contenderFetch_def)
  apply (erule bindE_InrE)+
  apply (simp split: if_splits)
  apply (erule bindE_InrE)+
  apply (simp split: if_splits prod.splits)
  apply (erule bindE_InrE)+
  apply (simp add: Let_def split: if_splits)
   apply (erule bindE_InrE)+
   apply (simp)
   apply blast
  apply (erule bindE_InrE)+
  apply simp
  apply blast
  done

lemma offsetFetch_frame:
  "offsetFetch env rq i st = Inr (b, st') \<Longrightarrow>
     realData st' = realData st \<and> heightFallback st' = heightFallback st
     \<and> heightFailed st' = heightFailed st \<and> heightFields st' = heightFields st
     \<and> contenders st' = contenders st \<and> offsets st' = offsets st
     \<and> swHF st' = swHF st \<and> deltaLOD st' = deltaLOD st
     \<and> resolvedIndex st' = resolvedIndex st
     \<and> (rows9 (offsetFailed st) \<longrightarrow> rows9 (offsetFailed st'))"
  apply (unfold offsetFetch_def)
  apply (erule bindE_InrE)+
  apply (simp split: if_splits)
  apply (erule bindE_InrE)+
  apply (simp split: if_splits)
  apply (erule bindE_InrE)+
  apply (simp split: if_splits prod.splits)
  apply (erule bindE_InrE)+
  apply (simp add: Let_def split: if_splits)
   apply (auto simp: vecSet2_Inr rows9_update elim!: bindE_InrE)
  done

lemma offsetFetch_slot:
  "offsetFetch env rq i st = Inr (b, st') \<Longrightarrow>
     (b \<longrightarrow> 4 < length (offsetFields st') \<and> i < length (offsetFields st' ! 4)
            \<and> ghfValid (offsetFields st' ! 4 ! i))
     \<and> (\<forall>j. 4 < length (offsetFields st') \<and> j < length (offsetFields st' ! 4)
              \<and> ghfValid (offsetFields st' ! 4 ! j)
            \<longrightarrow> (b \<and> j = i) \<or> (4 < length (offsetFields st) \<and> j < length (offsetFields st ! 4)
                  \<and> ghfValid (offsetFields st ! 4 ! j)))"
  apply (unfold offsetFetch_def)
  apply (erule bindE_InrE)+
  apply (simp split: if_splits)
  apply (erule bindE_InrE)+
  apply (simp split: if_splits)
  apply (erule bindE_InrE)+
  apply (simp split: if_splits prod.splits)
   apply (erule bindE_InrE)+
   apply (simp add: Let_def split: if_splits)
    apply (auto simp: vecSet2_Inr vecGet2_Inr nth_list_update elim!: bindE_InrE split: if_splits)
  done

lemma offsetApply_Inr:
  "offsetApply env smp rq px i st = Inr st' \<Longrightarrow>
     st' = st\<lparr>realData := True\<rparr>
   \<or> (\<exists>hf' dl. st' = st\<lparr>realData := True, swHF := hf', deltaLOD := dl\<rparr>)"
  apply (unfold offsetApply_def)
  apply (erule bindE_InrE)+
  apply (auto simp: Let_def elim!: bindE_InrE split: option.splits if_splits)
  done

lemma contenderSample_frame:
  "contenderSample env smp rq px i st = Inr st' \<Longrightarrow>
     offsetFields st' = offsetFields st \<and> heightFields st' = heightFields st
     \<and> heightFallback st' = heightFallback st \<and> heightFailed st' = heightFailed st
     \<and> offsetFailed st' = offsetFailed st \<and> contenders st' = contenders st
     \<and> offsets st' = offsets st \<and> (realData st \<longrightarrow> realData st')"
  apply (unfold contenderSample_def)
  apply (erule bindE_InrE)+
  apply (simp split: if_splits)
  apply (auto simp: Let_def elim!: bindE_InrE split: option.splits if_splits)
  done

lemma evictKeeps_refl: "evictKeeps st st"
  by (simp add: evictKeeps_def)

lemma evict_inner_step:
  assumes "evictKeeps st s"
    and "bindE (vecSet2 (heightFields s) j k GeoHeightField_INVALID) (\<lambda>hfs.
         bindE (vecSet2 (heightFallback s) j k False) (\<lambda>fb.
           Inr (s\<lparr>heightFields := hfs, heightFallback := fb\<rparr>))) = Inr s'"
  shows "evictKeeps st s'"
  using assms
  by (auto simp: evictKeeps_def vecSet2_Inr rows9_update elim!: bindE_InrE)

lemma evict_outer_step:
  assumes "evictKeeps st s"
    and "bindE (vecGet (heightFields s) j) (\<lambda>row.
           forEachM [0..<length row] (\<lambda>k s'.
             bindE (vecSet2 (heightFields s') j k GeoHeightField_INVALID) (\<lambda>hfs.
             bindE (vecSet2 (heightFallback s') j k False) (\<lambda>fb.
               Inr (s'\<lparr>heightFields := hfs, heightFallback := fb\<rparr>)))) s) = Inr s'"
  shows "evictKeeps st s'"
proof -
  from assms(2) obtain row :: "GeoHeightField list" where
    loop: "forEachM [0..<length row] (\<lambda>k s'.
             bindE (vecSet2 (heightFields s') j k GeoHeightField_INVALID) (\<lambda>hfs.
             bindE (vecSet2 (heightFallback s') j k False) (\<lambda>fb.
               Inr (s'\<lparr>heightFields := hfs, heightFallback := fb\<rparr>)))) s = Inr s'"
    by (auto elim!: bindE_InrE)
  show ?thesis
    by (rule forEachM_invariant [where P = "evictKeeps st", OF _ assms(1) loop])
       (rule evict_inner_step)
qed

lemma contenderEvict_keeps:
  assumes "contenderEvict st = Inr st'"
  shows "evictKeeps st st'"
proof (cases "numHeightFieldsInCache st \<ge> 50")
  case False
  with assms show ?thesis by (simp add: contenderEvict_def evictKeeps_refl)
next
  case True
  with assms obtain s where
    loop: "forEachM [0..<9] (\<lambda>j s.
             bindE (vecGet (heightFields s) j) (\<lambda>row.
               forEachM [0..<length row] (\<lambda>k s'.
                 bindE (vecSet2 (heightFields s') j k GeoHeightField_INVALID) (\<lambda>hfs.
                 bindE (vecSet2 (heightFallback s') j k False) (\<lambda>fb.
                   Inr (s'\<lparr>heightFields := hfs, heightFallback := fb\<rparr>)))) s)) st = Inr s"
    and st': "st' = s\<lparr>numHeightFieldsInCache := 0\<rparr>"
    by (auto simp: contenderEvict_def elim!: bindE_InrE)
  have "evictKeeps st s"
    by (rule forEachM_invariant [where P = "evictKeeps st", OF _ evictKeeps_refl loop])
       (rule evict_outer_step)
  then show ?thesis using st' by (simp add: evictKeeps_def)
qed

lemma contenderFetch_frame:
  assumes "contenderFetch env rq i st = Inr (b, st')"
  shows "realData st' = realData st \<and> offsetFields st' = offsetFields st
     \<and> offsetFailed st' = offsetFailed st \<and> offsets st' = offsets st
     \<and> length (contenders st') = length (contenders st)
     \<and> (rows9 (heightFallback st) \<longrightarrow> rows9 (heightFallback st'))
     \<and> (rows9 (heightFailed st) \<longrightarrow> rows9 (heightFailed st'))"
  using contenderFetch_Inr [OF assms]
  by (auto simp: vecSet2_Inr rows9_update)

lemma contenderBody_frame:
  assumes "contenderBody env smp rq px i st = Inr st'"
  shows "(realData st \<longrightarrow> realData st') \<and> offsetFields st' = offsetFields st
     \<and> offsets st' = offsets st
     \<and> length (contenders st') = length (contenders st)
     \<and> (flagsOfNine st \<longrightarrow> flagsOfNine st')"
proof -
  from assms obtain b st1 where f: "contenderFetch env rq i st = Inr (b, st1)"
    and r: "(if b then bindE (contenderSample env smp rq px i st1) contenderEvict else Inr st1) = Inr st'"
    by (auto simp: contenderBody_def elim!: bindE_InrE)
  note f1 = contenderFetch_frame [OF f]
  show ?thesis
  proof (cases b)
    case False
    with r have "st' = st1" by simp
    with f1 show ?thesis by (simp add: flagsOfNine_def)
  next
    case True
    with r obtain st2 where s: "contenderSample env smp rq px i st1 = Inr st2"
      and e: "contenderEvict st2 = Inr st'"
      by (auto elim!: bindE_InrE)
    note s1 = contenderSample_frame [OF s]
    note e1 = contenderEvict_keeps [OF e, unfolded evictKeeps_def]
    from f1 s1 e1 show ?thesis by (simp add: flagsOfNine_def)
  qed
qed

lemma offsetBody_frame:
  assumes "offsetBody env smp rq px i st = Inr st'"
  shows "(realData st \<longrightarrow> realData st') \<and> offsets st' = offsets st
     \<and> contenders st' = contenders st
     \<and> (flagsOfNine st \<longrightarrow> flagsOfNine st')"
proof -
  from assms obtain b st1 where f: "offsetFetch env rq i st = Inr (b, st1)"
    and r: "(if b then offsetApply env smp rq px i st1 else Inr st1) = Inr st'"
    by (auto simp: offsetBody_def elim!: bindE_InrE)
  note f1 = offsetFetch_frame [OF f]
  show ?thesis
  proof (cases b)
    case False
    with r have "st' = st1" by simp
    with f1 show ?thesis by (simp add: flagsOfNine_def)
  next
    case True
    with r have "offsetApply env smp rq px i st1 = Inr st'" by simp
    from offsetApply_Inr [OF this] f1 show ?thesis by (auto simp: flagsOfNine_def)
  qed
qed

lemma pixelSweep_invariant:
  assumes cb: "\<forall>i s s'. P s \<longrightarrow> contenderBody env smp rq px i s = Inr s' \<longrightarrow> P s'"
    and ob: "\<forall>i s s'. P s \<longrightarrow> offsetBody env smp rq px i s = Inr s' \<longrightarrow> P s'"
    and ri: "\<forall>s. P s \<longrightarrow> P (s\<lparr>resolvedIndex := - 1\<rparr>)"
    and "P st" and "pixelSweep env smp rq px st = Inr st'"
  shows "P st'"
proof -
  from assms(5) obtain st1 where
    c: "contenderLoop env smp rq px (length (contenders st)) 0 (st\<lparr>resolvedIndex := - 1\<rparr>) = Inr st1"
    and o: "offsetLoop env smp rq px (int (length (offsets st1)) - 1) st1 = Inr st'"
    by (auto simp: pixelSweep_def elim!: bindE_InrE)
  have p0: "P (st\<lparr>resolvedIndex := - 1\<rparr>)" using assms(4) ri by blast
  have cb': "\<And>i s s'. i < length (contenders st) \<Longrightarrow> P s
               \<Longrightarrow> contenderBody env smp rq px i s = Inr s' \<Longrightarrow> P s'"
    using cb by blast
  have p1: "P st1"
    using cb' p0 c by (rule contenderLoop_invariant)
  have o': "forEachM (rev [0..<length (offsets st1)]) (offsetBody env smp rq px) st1 = Inr st'"
    using o by (simp add: offsetLoop_forEachM)
  have ob': "\<And>i s s'. P s \<Longrightarrow> offsetBody env smp rq px i s = Inr s' \<Longrightarrow> P s'"
    using ob by blast
  show ?thesis
    using ob' p1 o' by (rule forEachM_invariant)
qed

lemma sweep_invariant:
  assumes cb: "\<forall>px i s s'. P s \<longrightarrow> contenderBody env smp rq px i s = Inr s' \<longrightarrow> P s'"
    and ob: "\<forall>px i s s'. P s \<longrightarrow> offsetBody env smp rq px i s = Inr s' \<longrightarrow> P s'"
    and ri: "\<forall>s. P s \<longrightarrow> P (s\<lparr>resolvedIndex := - 1\<rparr>)"
    and "P st" and "sweep env smp rq ex st = Inr st'"
  shows "P st'"
proof -
  have px: "P s \<Longrightarrow> pixelSweep env smp rq px s = Inr s' \<Longrightarrow> P s'" for px s s'
    using cb ob ri pixelSweep_invariant [of P env smp rq px s s'] by blast
  have row: "P s \<Longrightarrow> forEachM rs (\<lambda>r. pixelSweep env smp rq (f r)) s = Inr s' \<Longrightarrow> P s'"
    for rs :: "nat list" and f :: "nat \<Rightarrow> Pixel" and s s'
  proof -
    assume a: "P s" and b: "forEachM rs (\<lambda>r. pixelSweep env smp rq (f r)) s = Inr s'"
    have step: "\<And>x t t'. P t \<Longrightarrow> pixelSweep env smp rq (f x) t = Inr t' \<Longrightarrow> P t'"
      by (rule px)
    show "P s'" using step a b by (rule forEachM_invariant)
  qed
  have cols: "forEachM [0..<unat (getNumColumns (swHF st))]
    (\<lambda>c. forEachM [0..<unat (getNumRows (swHF st))]
          (\<lambda>r. pixelSweep env smp rq
                \<lparr>pxX = xMin ex + extWidth ex / real (unat (getNumColumns (swHF st) - 1)) * real c,
                 pxY = yMin ex + extHeight ex / real (unat (getNumRows (swHF st) - 1)) * real r,
                 pxC = of_nat c, pxR = of_nat r\<rparr>)) st = Inr st'"
    using assms(5) by (simp add: sweep_def Let_def)
  have step: "\<And>c t t'. P t \<Longrightarrow>
     forEachM [0..<unat (getNumRows (swHF st))]
          (\<lambda>r. pixelSweep env smp rq
                \<lparr>pxX = xMin ex + extWidth ex / real (unat (getNumColumns (swHF st) - 1)) * real c,
                 pxY = yMin ex + extHeight ex / real (unat (getNumRows (swHF st) - 1)) * real r,
                 pxC = of_nat c, pxR = of_nat r\<rparr>) t = Inr t' \<Longrightarrow> P t'"
    by (rule row)
  show ?thesis using step assms(4) cols by (rule forEachM_invariant)
qed




lemma offsetBody_held:
  assumes "offsetBody env smp rq px i st = Inr st'"
    and "offsetGridHeld st \<longrightarrow> realData st"
  shows "offsetGridHeld st' \<longrightarrow> realData st'"
proof -
  from assms(1) obtain b st1 where f: "offsetFetch env rq i st = Inr (b, st1)"
    and r: "(if b then offsetApply env smp rq px i st1 else Inr st1) = Inr st'"
    by (auto simp: offsetBody_def elim!: bindE_InrE)
  note f1 = offsetFetch_frame [OF f]
  note f2 = offsetFetch_slot [OF f]
  show ?thesis
  proof (cases b)
    case True
    with r have "offsetApply env smp rq px i st1 = Inr st'" by simp
    from offsetApply_Inr [OF this] have "realData st'" by auto
    then show ?thesis by simp
  next
    case False
    with r have eq: "st' = st1" by simp
    show ?thesis
    proof
      assume "offsetGridHeld st'"
      then obtain j where "4 < length (offsetFields st1)" "j < length (offsetFields st1 ! 4)"
        "ghfValid (offsetFields st1 ! 4 ! j)"
        by (auto simp: offsetGridHeld_def eq)
      with f2 False have "offsetGridHeld st"
        by (auto simp: offsetGridHeld_def)
      with assms(2) f1 show "realData st'" by (simp add: eq)
    qed
  qed
qed

lemma contenderBody_held:
  assumes "contenderBody env smp rq px i st = Inr st'"
    and "offsetGridHeld st \<longrightarrow> realData st"
  shows "offsetGridHeld st' \<longrightarrow> realData st'"
  using contenderBody_frame [OF assms(1)] assms(2)
  by (simp add: offsetGridHeld_def)

lemma sweep_held:
  assumes "sweep env smp rq ex st = Inr st'" and "heldIsReal st"
  shows "heldIsReal st'"
proof -
  have 1: "\<forall>px i s s'. heldIsReal s \<longrightarrow> contenderBody env smp rq px i s = Inr s' \<longrightarrow> heldIsReal s'"
    using contenderBody_held unfolding heldIsReal_def by blast
  have 2: "\<forall>px i s s'. heldIsReal s \<longrightarrow> offsetBody env smp rq px i s = Inr s' \<longrightarrow> heldIsReal s'"
    using offsetBody_held unfolding heldIsReal_def by blast
  have 3: "\<forall>s. heldIsReal s \<longrightarrow> heldIsReal (s\<lparr>resolvedIndex := - 1\<rparr>)"
    by (simp add: heldIsReal_def offsetGridHeld_def)
  show ?thesis using 1 2 3 assms(2) assms(1) by (rule sweep_invariant)
qed

lemma sweep_realData_mono:
  assumes "sweep env smp rq ex st = Inr st'" and "realData st"
  shows "realData st'"
proof -
  have 1: "\<forall>px i s s'. realData s \<longrightarrow> contenderBody env smp rq px i s = Inr s' \<longrightarrow> realData s'"
    using contenderBody_frame by blast
  have 2: "\<forall>px i s s'. realData s \<longrightarrow> offsetBody env smp rq px i s = Inr s' \<longrightarrow> realData s'"
    using offsetBody_frame by blast
  have 3: "\<forall>s. realData s \<longrightarrow> realData (s\<lparr>resolvedIndex := - 1\<rparr>)"
    by simp
  show ?thesis using 1 2 3 assms(2) assms(1) by (rule sweep_invariant)
qed


lemma isr_collapse: "\<not> isl x \<Longrightarrow> x = Inr (projr x)"
  by (cases x) simp_all

text \<open>
  C1 as the claim words it fails: a single offset layer whose grid holds only
  \<open>NO_DATA_VALUE\<close>. The grid is fetched, no sample is written (the output grid is the
  input grid), and the call returns true.
\<close>

theorem populate_true_without_sample_counterexample:
  "populate_ex [offset_ex NO_DATA_ex] = Inr (True, Some out_ex)"
  by code_simp

text \<open>
  The same with a contender layer that is not a fallback: its grid holds only
  \<open>NO_DATA_VALUE\<close>, no sample is written, and the call returns true.
\<close>

lemma contender_nodata_counts_as_real_ex:
  "populate_ex [layer_ex (const_driver NO_DATA_ex)] = Inr (True, Some out_ex)"
  by code_simp

text \<open>
  A contender that has data only one level above the key: the walk to the parents finds its grid, the
  key of the entry has moved with it, the fallback flag stays unset and the call returns
  true.
\<close>

lemma fallback_grid_counts_as_real_ex:
  "populate_ex [layer_ex (coarse_driver (Fin 7))]
     = Inr (True, Some (mkHeightField 2 2 [Fin 7, Fin 7, Fin 7, Fin 7]))"
  by code_simp

text \<open>The flag after a whole contender iteration, and the value a call returns.\<close>

lemma contenderSample_realData_slot:
  "contenderSample env smp rq px i st = Inr st' \<Longrightarrow>
   4 < length (heightFields st) \<Longrightarrow> i < length (heightFields st ! 4) \<Longrightarrow>
   ghfValid (heightFields st ! 4 ! i) \<Longrightarrow>
   realData st' = (realData st \<or> \<not> heightFallback st ! 4 ! i)"
  apply (unfold contenderSample_def)
  apply (erule bindE_InrE)+
  apply (simp add: vecGet2_Inr split: if_splits)
  apply (auto simp: Let_def vecGet2_Inr elim!: bindE_InrE split: option.splits if_splits)
  done

lemma contenderFetch_slot:
  assumes "contenderFetch env rq i st = Inr (b, st1)" and b
  shows "4 < length (heightFields st1) \<and> i < length (heightFields st1 ! 4)
         \<and> ghfValid (heightFields st1 ! 4 ! i)"
  using contenderFetch_Inr [OF assms(1)] assms(2)
  by (auto simp: vecSet2_Inr vecGet2_Inr)

lemma contenderBody_realData:
  assumes f: "contenderFetch env rq i st = Inr (b, st1)"
    and c: "contenderBody env smp rq px i st = Inr st'"
  shows "realData st' = (realData st \<or> (b \<and> \<not> heightFallback st1 ! 4 ! i))
         \<and> (b \<longrightarrow> ghfValid (heightFields st1 ! 4 ! i))"
proof -
  from c f have r: "(if b then bindE (contenderSample env smp rq px i st1) contenderEvict
                     else Inr st1) = Inr st'"
    by (simp add: contenderBody_def)
  note f1 = contenderFetch_frame [OF f]
  show ?thesis
  proof (cases b)
    case False
    with r have "st' = st1" by simp
    with False f1 show ?thesis by simp
  next
    case True
    with r obtain st2 where s: "contenderSample env smp rq px i st1 = Inr st2"
      and e: "contenderEvict st2 = Inr st'"
      by (auto elim!: bindE_InrE)
    note sl = contenderFetch_slot [OF f True]
    from contenderSample_realData_slot [OF s] sl
    have "realData st2 = (realData st1 \<or> \<not> heightFallback st1 ! 4 ! i)" by blast
    moreover from contenderEvict_keeps [OF e] have "realData st' = realData st2"
      by (simp add: evictKeeps_def)
    ultimately show ?thesis using True f1 sl by simp
  qed
qed

lemma populate_exact:
  assumes p: "populateHeightFieldAndNormalMap env smp ops layers (Some h) normalMap key haeProfile
             interpolation progress w = Inr r"
    and cl: "collectLayers smp layers h key
        (case haeProfile of None \<Rightarrow> key
         | Some p \<Rightarrow> TileKey (getLOD key) (getTileX key) (getTileY key) (Some p))
        (length layers) ([], [], 0) = (cs, os, nf)"
  shows "if (cs = [] \<and> os = []) \<or> length cs + length os = unat nf
         then \<not> popReturn r
         else (\<exists>st'. sweep env smp
                \<lparr>rqKey = key,
                 rqKeySRS = getProfile (case haeProfile of None \<Rightarrow> key
                              | Some p \<Rightarrow> TileKey (getLOD key) (getTileX key) (getTileY key) (Some p)),
                 rqInterpolation = interpolation, rqProgress = progress\<rparr>
                (getExtent env key) (initSweep h cs os w) = Inr st'
              \<and> popReturn r = realData st' \<and> popHF r = Some (swHF st')
              \<and> (offsetGridHeld st' \<longrightarrow> popReturn r))"
proof (cases "(cs = [] \<and> os = []) \<or> length cs + length os = unat nf")
  case True
  with p cl have "r = \<lparr>popReturn = False, popHF = Some h, popNormalMap = normalMap, popWorld = w\<rparr>"
    by (auto simp: populateHeightFieldAndNormalMap_def Let_def split: if_splits)
  with True show ?thesis by simp
next
  case False
  with p cl obtain st' nm' where
    s: "sweep env smp
          \<lparr>rqKey = key,
           rqKeySRS = getProfile (case haeProfile of None \<Rightarrow> key
                        | Some p \<Rightarrow> TileKey (getLOD key) (getTileX key) (getTileY key) (Some p)),
           rqInterpolation = interpolation, rqProgress = progress\<rparr>
          (getExtent env key) (initSweep h cs os w) = Inr st'"
    and r: "r = \<lparr>popReturn = realData st', popHF = Some (swHF st'), popNormalMap = nm',
                 popWorld = world st'\<rparr>"
    by (auto simp: populateHeightFieldAndNormalMap_def Let_def elim!: bindE_InrE split: if_splits)
  have "heldIsReal (initSweep h cs os w)"
    by (auto simp: heldIsReal_def offsetGridHeld_def initSweep_def ghfValid_def
        GeoHeightField_INVALID_def)
  with s have "heldIsReal st'" by (rule sweep_held)
  then have "offsetGridHeld st' \<longrightarrow> realData st'" by (simp add: heldIsReal_def)
  with False s r show ?thesis by auto
qed

text \<open>
  C1, as the code has it. The value returned is the \<open>realData\<close> flag of the sweep: a call
  that gets past the two early returns gives back the flag as the sweep leaves it, and
  without a normal map it returns whenever the sweep does. The flag starts false and
  nothing in the sweep clears it. A contender iteration sets it exactly when it goes on
  with a valid grid in its slot and the fallback flag of the slot is unset; an offset
  iteration sets it exactly when it goes on with a valid grid in its slot. Both happen
  before the grid is sampled, whatever the sample is. So the value returned is true
  whenever the sweep ends with a valid grid in an offset slot.
\<close>

theorem realData_set_by_held_grids:
  "\<not> realData (initSweep h cs os w)
   \<and> (contenderFetch env rq i st = Inr (b, st1) \<longrightarrow> contenderBody env smp rq px i st = Inr st' \<longrightarrow>
        realData st' = (realData st \<or> (b \<and> \<not> heightFallback st1 ! 4 ! i))
        \<and> (b \<longrightarrow> ghfValid (heightFields st1 ! 4 ! i)))
   \<and> (offsetFetch env rq i st = Inr (b, st1) \<longrightarrow> offsetBody env smp rq px i st = Inr st' \<longrightarrow>
        realData st' = (realData st \<or> b) \<and> (b \<longrightarrow> ghfValid (offsetFields st1 ! 4 ! i)))
   \<and> (sweep env smp rq ex st = Inr st' \<longrightarrow> realData st \<longrightarrow> realData st')
   \<and> (sweep env smp rq ex (initSweep h cs os w) = Inr st' \<longrightarrow> offsetGridHeld st' \<longrightarrow> realData st')
   \<and> (populateHeightFieldAndNormalMap env smp ops layers (Some h) normalMap key haeProfile
         interpolation progress w = Inr r \<longrightarrow>
       collectLayers smp layers h key
         (case haeProfile of None \<Rightarrow> key
          | Some p \<Rightarrow> TileKey (getLOD key) (getTileX key) (getTileY key) (Some p))
         (length layers) ([], [], 0) = (cs, os, nf) \<longrightarrow>
       (if (cs = [] \<and> os = []) \<or> length cs + length os = unat nf
        then \<not> popReturn r
        else (\<exists>st'. sweep env smp
                \<lparr>rqKey = key,
                 rqKeySRS = getProfile (case haeProfile of None \<Rightarrow> key
                              | Some p \<Rightarrow> TileKey (getLOD key) (getTileX key) (getTileY key) (Some p)),
                 rqInterpolation = interpolation, rqProgress = progress\<rparr>
                (getExtent env key) (initSweep h cs os w) = Inr st'
              \<and> popReturn r = realData st' \<and> popHF r = Some (swHF st')
              \<and> (offsetGridHeld st' \<longrightarrow> popReturn r))))
   \<and> (collectLayers smp layers h key
         (case haeProfile of None \<Rightarrow> key
          | Some p \<Rightarrow> TileKey (getLOD key) (getTileX key) (getTileY key) (Some p))
         (length layers) ([], [], 0) = (cs, os, nf) \<longrightarrow>
       \<not> ((cs = [] \<and> os = []) \<or> length cs + length os = unat nf) \<longrightarrow>
       sweep env smp
         \<lparr>rqKey = key,
          rqKeySRS = getProfile (case haeProfile of None \<Rightarrow> key
                       | Some p \<Rightarrow> TileKey (getLOD key) (getTileX key) (getTileY key) (Some p)),
          rqInterpolation = interpolation, rqProgress = progress\<rparr>
         (getExtent env key) (initSweep h cs os w) = Inr st' \<longrightarrow>
       populateHeightFieldAndNormalMap env smp ops layers (Some h) None key haeProfile
         interpolation progress w
         = Inr \<lparr>popReturn = realData st', popHF = Some (swHF st'), popNormalMap = None,
                popWorld = world st'\<rparr>)"
proof -
  have 1: "\<not> realData (initSweep h cs os w)"
    by (simp add: initSweep_def)
  have 2: "contenderFetch env rq i st = Inr (b, st1) \<longrightarrow> contenderBody env smp rq px i st = Inr st' \<longrightarrow>
        realData st' = (realData st \<or> (b \<and> \<not> heightFallback st1 ! 4 ! i))
        \<and> (b \<longrightarrow> ghfValid (heightFields st1 ! 4 ! i))"
    using contenderBody_realData by blast
  have 3: "offsetFetch env rq i st = Inr (b, st1) \<longrightarrow> offsetBody env smp rq px i st = Inr st' \<longrightarrow>
        realData st' = (realData st \<or> b) \<and> (b \<longrightarrow> ghfValid (offsetFields st1 ! 4 ! i))"
  proof (intro impI)
    assume f: "offsetFetch env rq i st = Inr (b, st1)"
      and o: "offsetBody env smp rq px i st = Inr st'"
    from o f have r: "(if b then offsetApply env smp rq px i st1 else Inr st1) = Inr st'"
      by (simp add: offsetBody_def)
    note f1 = offsetFetch_frame [OF f]
    note f2 = offsetFetch_slot [OF f]
    show "realData st' = (realData st \<or> b) \<and> (b \<longrightarrow> ghfValid (offsetFields st1 ! 4 ! i))"
    proof (cases b)
      case True
      with r have "offsetApply env smp rq px i st1 = Inr st'" by simp
      from offsetApply_Inr [OF this] have "realData st'" by auto
      with True f2 show ?thesis by simp
    next
      case False
      with r have "st' = st1" by simp
      with False f1 show ?thesis by simp
    qed
  qed
  have 4: "sweep env smp rq ex st = Inr st' \<longrightarrow> realData st \<longrightarrow> realData st'"
    using sweep_realData_mono by blast
  have 5: "sweep env smp rq ex (initSweep h cs os w) = Inr st' \<longrightarrow> offsetGridHeld st' \<longrightarrow> realData st'"
  proof (intro impI)
    assume s: "sweep env smp rq ex (initSweep h cs os w) = Inr st'" and hd: "offsetGridHeld st'"
    have "heldIsReal (initSweep h cs os w)"
      by (auto simp: heldIsReal_def offsetGridHeld_def initSweep_def ghfValid_def
          GeoHeightField_INVALID_def)
    with s have "heldIsReal st'" by (rule sweep_held)
    with hd show "realData st'" by (simp add: heldIsReal_def)
  qed
  note 6 = populate_exact [of env smp ops layers h normalMap key haeProfile interpolation progress
      w r cs os nf]
  have 7: "collectLayers smp layers h key
         (case haeProfile of None \<Rightarrow> key
          | Some p \<Rightarrow> TileKey (getLOD key) (getTileX key) (getTileY key) (Some p))
         (length layers) ([], [], 0) = (cs, os, nf) \<longrightarrow>
       \<not> ((cs = [] \<and> os = []) \<or> length cs + length os = unat nf) \<longrightarrow>
       sweep env smp
         \<lparr>rqKey = key,
          rqKeySRS = getProfile (case haeProfile of None \<Rightarrow> key
                       | Some p \<Rightarrow> TileKey (getLOD key) (getTileX key) (getTileY key) (Some p)),
          rqInterpolation = interpolation, rqProgress = progress\<rparr>
         (getExtent env key) (initSweep h cs os w) = Inr st' \<longrightarrow>
       populateHeightFieldAndNormalMap env smp ops layers (Some h) None key haeProfile
         interpolation progress w
         = Inr \<lparr>popReturn = realData st', popHF = Some (swHF st'), popNormalMap = None,
                popWorld = world st'\<rparr>"
    by (simp add: populateHeightFieldAndNormalMap_def Let_def)
  from 1 2 3 4 5 6 7 show ?thesis by blast
qed

lemma sweep_of_ex_init:
  "sweep_of_ex layers =
     initSweep out_ex
       (fst (collectLayers smp_ex layers out_ex key_ex key_ex (length layers) ([], [], 0)))
       (fst (snd (collectLayers smp_ex layers out_ex key_ex key_ex (length layers) ([], [], 0))))
       world_ex"
  by (simp add: sweep_of_ex_def split: prod.splits)

theorem realData_set_by_held_grids_witness:
  "\<not> isl (populateHeightFieldAndNormalMap env_ex smp_ex ops_ex [offset_ex NO_DATA_ex] (Some out_ex)
            None key_ex None INTERP_BILINEAR None world_ex)
   \<and> offsetGridHeld
        (projr (sweep env_ex smp_ex
           \<lparr>rqKey = key_ex, rqKeySRS = getProfile key_ex, rqInterpolation = INTERP_BILINEAR,
            rqProgress = None\<rparr>
           (getExtent env_ex key_ex) (sweep_of_ex [offset_ex NO_DATA_ex])))
   \<and> popReturn
        (projr (populateHeightFieldAndNormalMap env_ex smp_ex ops_ex [offset_ex NO_DATA_ex]
                  (Some out_ex) None key_ex None INTERP_BILINEAR None world_ex))
   \<and> popHF
        (projr (populateHeightFieldAndNormalMap env_ex smp_ex ops_ex [offset_ex NO_DATA_ex]
                  (Some out_ex) None key_ex None INTERP_BILINEAR None world_ex)) = Some out_ex"
proof -
  let ?P = "populateHeightFieldAndNormalMap env_ex smp_ex ops_ex [offset_ex NO_DATA_ex] (Some out_ex)
            (None :: unit NormalMap option) key_ex None INTERP_BILINEAR None world_ex"
  let ?X = "collectLayers smp_ex [offset_ex NO_DATA_ex] out_ex key_ex key_ex
              (length [offset_ex NO_DATA_ex]) ([], [], 0)"
  let ?rq = "\<lparr>rqKey = key_ex, rqKeySRS = getProfile key_ex, rqInterpolation = INTERP_BILINEAR,
              rqProgress = None\<rparr>"
  let ?S = "sweep env_ex smp_ex ?rq (getExtent env_ex key_ex) (sweep_of_ex [offset_ex NO_DATA_ex])"
  have p: "\<not> isl ?P" by code_simp
  then have pe: "?P = Inr (projr ?P)" by (rule isr_collapse)
  have x: "?X = (fst ?X, fst (snd ?X), snd (snd ?X))" by simp
  have n: "length (fst ?X) = 0 \<and> length (fst (snd ?X)) = 1 \<and> snd (snd ?X) = 0" by code_simp
  then have nb: "\<not> ((fst ?X = [] \<and> fst (snd ?X) = [])
                    \<or> length (fst ?X) + length (fst (snd ?X)) = unat (snd (snd ?X)))"
    by auto
  have s: "\<not> isl ?S" by code_simp
  then have se: "?S = Inr (projr ?S)" by (rule isr_collapse)
  have "4 < length (offsetFields (projr ?S)) \<and> 0 < length (offsetFields (projr ?S) ! 4)
        \<and> ghfValid (offsetFields (projr ?S) ! 4 ! 0)"
    by code_simp
  then have held: "offsetGridHeld (projr ?S)"
    unfolding offsetGridHeld_def by blast
  have hf: "popHF (projr ?P) = Some out_ex" by code_simp
  from realData_set_by_held_grids [where env = env_ex and smp = smp_ex and ops = ops_ex
      and layers = "[offset_ex NO_DATA_ex]" and h = out_ex and normalMap = None and key = key_ex
      and haeProfile = None and interpolation = INTERP_BILINEAR and progress = None
      and w = world_ex and r = "projr ?P" and cs = "fst ?X" and os = "fst (snd ?X)"
      and nf = "snd (snd ?X)", unfolded option.case] pe x nb
  have "\<exists>st'. sweep env_ex smp_ex ?rq (getExtent env_ex key_ex)
                 (initSweep out_ex (fst ?X) (fst (snd ?X)) world_ex) = Inr st'
             \<and> popReturn (projr ?P) = realData st'
             \<and> popHF (projr ?P) = Some (swHF st')
             \<and> (offsetGridHeld st' \<longrightarrow> popReturn (projr ?P))"
    by presburger
  then obtain st' where
    a: "sweep env_ex smp_ex ?rq (getExtent env_ex key_ex)
          (initSweep out_ex (fst ?X) (fst (snd ?X)) world_ex) = Inr st'"
    and b: "offsetGridHeld st' \<longrightarrow> popReturn (projr ?P)"
    by blast
  from a se have "st' = projr ?S" by (simp add: sweep_of_ex_init)
  with b held have "popReturn (projr ?P)" by simp
  with p held hf show ?thesis by simp
qed

text \<open>
  C3, as the code has it. In the sweep of a pixel the offset entries are visited in order
  of decreasing stored index: \<open>offsets[size-1]\<close> first, \<open>offsets[0]\<close> last.
\<close>

theorem offsets_visited_last_to_first:
  "pixelSweep env smp rq px st =
     bindE (contenderLoop env smp rq px (length (contenders st)) 0 (st\<lparr>resolvedIndex := - 1\<rparr>))
       (\<lambda>st1. forEachM (rev [0..<length (offsets st1)]) (offsetBody env smp rq px) st1)"
  by (simp add: pixelSweep_def offsetLoop_forEachM)

text \<open>
  C3 as the claim words it fails. Two offset layers are stored as \<open>offsets[0]\<close> (stack
  index 1, key of level 2) and \<open>offsets[1]\<close> (stack index 0, key of level 3), for a key of
  level 3. The loop of the code leaves \<open>deltaLOD = 1\<close> at the pixel: \<open>offsets[0]\<close> was
  applied last. Visiting from \<open>offsets[0]\<close> to \<open>offsets[1]\<close> would leave 0.
\<close>

theorem offsets_first_to_last_counterexample:
  "(case offsetLoop env_ex smp_ex rq_ex px_ex (int (length (offsets two_offsets_ex)) - 1)
           two_offsets_ex of
      Inl e \<Rightarrow> None | Inr s \<Rightarrow> Some (deltaLOD s, getHeightList (swHF s)))
     = Some ([1, 0, 0, 0], [Fin 8, Fin 0, Fin 0, Fin 0])
   \<and> (case forEachM [0..<length (offsets two_offsets_ex)]
             (offsetBody env_ex smp_ex rq_ex px_ex) two_offsets_ex of
        Inl e \<Rightarrow> None | Inr s \<Rightarrow> Some (deltaLOD s, getHeightList (swHF s)))
     = Some ([0, 0, 0, 0], [Fin 8, Fin 0, Fin 0, Fin 0])
   \<and> map ldIndex (offsets two_offsets_ex) = [1, 0]
   \<and> map (getLOD \<circ> ldKey) (offsets two_offsets_ex) = [2, 3]"
  by code_simp

theorem populate_bails_out_witness:
  "populateHeightFieldAndNormalMap env_ex smp_ex ops_ex [] (Some out_ex) None key_ex None
     INTERP_BILINEAR None world_ex
   = Inr \<lparr>popReturn = False, popHF = Some out_ex, popNormalMap = None, popWorld = world_ex\<rparr>
   \<and> populateHeightFieldAndNormalMap env_ex smp_ex ops_ex [parent_offset_ex (Fin 5)] (Some out_ex)
       None key_ex None INTERP_BILINEAR None world_ex
   = Inr \<lparr>popReturn = False, popHF = Some out_ex, popNormalMap = None, popWorld = world_ex\<rparr>"
proof -
  let ?X = "collectLayers smp_ex [parent_offset_ex (Fin 5)] out_ex key_ex
              (case None of None \<Rightarrow> key_ex
               | Some p \<Rightarrow> TileKey (getLOD key_ex) (getTileX key_ex) (getTileY key_ex) (Some p))
              (length [parent_offset_ex (Fin 5)]) ([], [], 0)"
  have e: "collectLayers smp_ex [] out_ex key_ex
              (case None of None \<Rightarrow> key_ex
               | Some p \<Rightarrow> TileKey (getLOD key_ex) (getTileX key_ex) (getTileY key_ex) (Some p))
              (length ([] :: nat Layer list)) ([], [], 0) = ([], [], 0)"
    by simp
  have x: "?X = (fst ?X, fst (snd ?X), snd (snd ?X))" by simp
  have n: "length (fst ?X) + length (fst (snd ?X)) = unat (snd (snd ?X))" by code_simp
  from populate_bails_out [OF e, of env_ex ops_ex None INTERP_BILINEAR None world_ex]
    populate_bails_out [OF x, of env_ex ops_ex None INTERP_BILINEAR None world_ex] n
  show ?thesis by simp
qed


text \<open>
  Runs within bounds. The rules compute \<open>okE\<close> through the checked accesses; with them
  every stage of an iteration at an index below 9 returns and keeps the shape
  \<open>sweepInv\<close>, and the eviction is never entered.
\<close>

lemma okE_Inr [simp]: "okE (Inr x) P = P x"
  by (simp add: okE_def)

lemma okE_Inl [simp]: "okE (Inl e) P = False"
  by (simp add: okE_def)















































text \<open>
  C2. In a grid of 3 columns and 2 rows the sweep stores the \<open>deltaLOD\<close> of the pixel
  (c = 2, r = 0) at index 2. For the pixel (s = 0, t = 1) \<open>createNormalMap\<close> reads index
  \<open>t*h + s = 2\<close> and takes the step 8 of that other pixel; the entry of the pixel itself,
  at \<open>t*w + s = 3\<close>, gives the step 1. With 2 columns and 3 rows the read at (s = 1, t = 2)
  is beyond the array.
\<close>

theorem normalStep_row_stride_mismatch:
  "vecSet (replicate 6 0) (unat ((0 :: 32 word) * getNumColumns (mkHeightField 3 2 (replicate 6 (Fin 0))) + 2)) 3
     = Inr [0, 0, 3, 0, 0, 0 :: 16 word]
   \<and> normalStep (mkHeightField 3 2 (replicate 6 (Fin 0))) [0, 0, 3, 0, 0, 0] 0 1 = Inr 8
   \<and> bindE (vecGet [0, 0, 3, 0, 0, 0 :: 16 word] (nat (1 * 3 + 0))) (\<lambda>d. shiftLeftOne (sint d)) = Inr 1
   \<and> normalStep (mkHeightField 2 3 (replicate 6 (Fin 0))) [0, 0, 0, 0, 0, 0] 1 2 = Inl OutOfBounds"
  by code_simp

end
